theory Spec2Isabelle
  imports Complex_Main
begin

section \<open>Values and errors\<close>

text \<open>
  Python floats are modelled as reals: rounding, overflow and NaN are outside the model.
  The only float division the modelled code performs on a possibly zero divisor raises
  \<open>ZeroDivisionError\<close> in Python and is written out where it occurs.
\<close>

type_synonym vec3 = "real \<times> real \<times> real"

text \<open>
  One constructor per \<open>raise\<close> site of the modelled sources. The comment gives the
  Python exception class and message.
\<close>

datatype error =
    UnknownParameter string           \<comment> \<open>ValueError: Unknown parameter: name\<close>
  | ParameterCountMismatch nat nat    \<comment> \<open>ValueError: Expected n values, got m\<close>
  | LocatorMissing string             \<comment> \<open>RuntimeError: Locator does not exist in scene\<close>
  | WorldPositionFailed string        \<comment> \<open>RuntimeError: Failed to get world position\<close>
  | UpdatePositionFailed string       \<comment> \<open>RuntimeError: Failed to update position\<close>
  | CameraMissing string              \<comment> \<open>RuntimeError: Camera does not exist in scene\<close>
  | LocatorNotValid string            \<comment> \<open>RuntimeError: Locator is not valid\<close>
  | NoCameraShape string              \<comment> \<open>RuntimeError: No camera shape found\<close>
  | PointAtCamera                     \<comment> \<open>RuntimeError: Point is at camera position (division by zero)\<close>
  | ZeroDivisionError                 \<comment> \<open>float division by zero\<close>
  | MayaError                         \<comment> \<open>any exception raised inside a Maya command\<close>
  | ProjectFailed string error        \<comment> \<open>RuntimeError: Failed to project locator: cause\<close>
  | NoLocatorPairs                    \<comment> \<open>ValueError: No locator pairs available for optimization\<close>
  | NoValidLocatorPairs               \<comment> \<open>ValueError: No valid locator pairs available for optimization\<close>
  | TooFewValidPairs                  \<comment> \<open>ValueError: At least 3 valid locator pairs are required\<close>
  | NoUnlockedParameters              \<comment> \<open>ValueError: No unlocked parameters available\<close>
  | SolverError                       \<comment> \<open>any exception raised inside the scipy solver\<close>
  | OptimizationFailed error          \<comment> \<open>RuntimeError: Optimization failed: cause\<close>
  | OptimizerNotInitialized           \<comment> \<open>RuntimeError: Optimizer not initialized\<close>
  | SetupInvalid string               \<comment> \<open>RuntimeError: Optimization setup invalid: message\<close>

section \<open>camera\_parameters.py\<close>

text \<open>
  \<open>ParameterConstraints\<close> is a mutable dataclass and the \<open>_constraints\<close> dictionary of a
  \<open>CameraParameters\<close> object stores references to such objects, so two parameter names
  can refer to one object. The objects live in \<open>heap\<close>, addressed by \<open>ref\<close>; \<open>next_ref\<close>
  is the next unused address.
\<close>

type_synonym ref = nat

record ParameterConstraints =
  is_locked :: bool
  min_value :: "real option"
  max_value :: "real option"

definition new_ParameterConstraints :: "bool \<Rightarrow> real option \<Rightarrow> real option \<Rightarrow> ParameterConstraints" where
  "new_ParameterConstraints l lo hi = \<lparr>is_locked = l, min_value = lo, max_value = hi\<rparr>"

definition default_constraints :: ParameterConstraints where
  "default_constraints = new_ParameterConstraints False None None"

definition clamp_value :: "ParameterConstraints \<Rightarrow> real \<Rightarrow> real" where
  "clamp_value c v =
     (let v1 = (case min_value c of Some lo \<Rightarrow> max v lo | None \<Rightarrow> v);
          v2 = (case max_value c of Some hi \<Rightarrow> min v1 hi | None \<Rightarrow> v1)
      in v2)"

record CameraParameters =
  camera_name :: string
  camera_shape_field :: "string option"
  camera_transform_field :: "string option"
  translation :: vec3
  rotation :: vec3
  focal_length :: real
  film_offset_x :: real
  film_offset_y :: real
  film_aperture_h :: real
  film_aperture_v :: real
  constraints :: "string \<rightharpoonup> ref"
  heap :: "ref \<Rightarrow> ParameterConstraints"
  next_ref :: ref

definition param_names :: "string list" where
  "param_names =
     [''translate_x'', ''translate_y'', ''translate_z'',
      ''rotate_x'', ''rotate_y'', ''rotate_z'',
      ''focal_length'', ''film_offset_x'', ''film_offset_y'']"

text \<open>
  The fields and the constraint table as \<open>__init__\<close> sets them before it reads the camera
  from the scene: nine separate constraint objects, at addresses 0 to 8.
\<close>

definition initial_constraints :: "string \<rightharpoonup> ref" where
  "initial_constraints =
     [''translate_x'' \<mapsto> 0, ''translate_y'' \<mapsto> 1, ''translate_z'' \<mapsto> 2,
      ''rotate_x'' \<mapsto> 3, ''rotate_y'' \<mapsto> 4, ''rotate_z'' \<mapsto> 5,
      ''focal_length'' \<mapsto> 6, ''film_offset_x'' \<mapsto> 7, ''film_offset_y'' \<mapsto> 8]"

definition initial_heap :: "ref \<Rightarrow> ParameterConstraints" where
  "initial_heap r =
     (if r = 6 then new_ParameterConstraints False (Some 1) (Some 1000)
      else if r = 7 \<or> r = 8 then new_ParameterConstraints False (Some (- 50)) (Some 50)
      else new_ParameterConstraints False None None)"

definition new_CameraParameters :: "string \<Rightarrow> CameraParameters" where
  "new_CameraParameters name =
     \<lparr>camera_name = name, camera_shape_field = None, camera_transform_field = None,
      translation = (0, 0, 0), rotation = (0, 0, 0), focal_length = 35,
      film_offset_x = 0, film_offset_y = 0, film_aperture_h = 36, film_aperture_v = 24,
      constraints = initial_constraints, heap = initial_heap, next_ref = 9\<rparr>"

text \<open>Allocation of a new \<open>ParameterConstraints\<close> object (a constructor call).\<close>

definition alloc :: "CameraParameters \<Rightarrow> ParameterConstraints \<Rightarrow> ref \<times> CameraParameters" where
  "alloc cp c = (next_ref cp, cp\<lparr>heap := (heap cp)(next_ref cp := c), next_ref := Suc (next_ref cp)\<rparr>)"

definition get_parameter_value :: "CameraParameters \<Rightarrow> string \<Rightarrow> error + real" where
  "get_parameter_value cp param_name =
     (if param_name = ''translate_x'' then Inr (fst (translation cp))
      else if param_name = ''translate_y'' then Inr (fst (snd (translation cp)))
      else if param_name = ''translate_z'' then Inr (snd (snd (translation cp)))
      else if param_name = ''rotate_x'' then Inr (fst (rotation cp))
      else if param_name = ''rotate_y'' then Inr (fst (snd (rotation cp)))
      else if param_name = ''rotate_z'' then Inr (snd (snd (rotation cp)))
      else if param_name = ''focal_length'' then Inr (focal_length cp)
      else if param_name = ''film_offset_x'' then Inr (film_offset_x cp)
      else if param_name = ''film_offset_y'' then Inr (film_offset_y cp)
      else Inl (UnknownParameter param_name))"

text \<open>
  Mutators return the exception raised, if any, and the object as the call leaves it.
\<close>

definition set_parameter_value :: "CameraParameters \<Rightarrow> string \<Rightarrow> real \<Rightarrow> error option \<times> CameraParameters" where
  "set_parameter_value cp param_name v0 =
     (let v = (case constraints cp param_name of
                 Some r \<Rightarrow> clamp_value (heap cp r) v0
               | None \<Rightarrow> v0)
      in
      if param_name = ''translate_x'' then
        (None, cp\<lparr>translation := (v, fst (snd (translation cp)), snd (snd (translation cp)))\<rparr>)
      else if param_name = ''translate_y'' then
        (None, cp\<lparr>translation := (fst (translation cp), v, snd (snd (translation cp)))\<rparr>)
      else if param_name = ''translate_z'' then
        (None, cp\<lparr>translation := (fst (translation cp), fst (snd (translation cp)), v)\<rparr>)
      else if param_name = ''rotate_x'' then
        (None, cp\<lparr>rotation := (v, fst (snd (rotation cp)), snd (snd (rotation cp)))\<rparr>)
      else if param_name = ''rotate_y'' then
        (None, cp\<lparr>rotation := (fst (rotation cp), v, snd (snd (rotation cp)))\<rparr>)
      else if param_name = ''rotate_z'' then
        (None, cp\<lparr>rotation := (fst (rotation cp), fst (snd (rotation cp)), v)\<rparr>)
      else if param_name = ''focal_length'' then (None, cp\<lparr>focal_length := v\<rparr>)
      else if param_name = ''film_offset_x'' then (None, cp\<lparr>film_offset_x := v\<rparr>)
      else if param_name = ''film_offset_y'' then (None, cp\<lparr>film_offset_y := v\<rparr>)
      else (Some (UnknownParameter param_name), cp))"

definition get_constraints :: "CameraParameters \<Rightarrow> string \<Rightarrow> ParameterConstraints" where
  "get_constraints cp param_name =
     (case constraints cp param_name of
        Some r \<Rightarrow> heap cp r
      | None \<Rightarrow> default_constraints)"

text \<open>\<open>set_constraints\<close> stores the reference it is given, not a copy of the object.\<close>

definition set_constraints :: "CameraParameters \<Rightarrow> string \<Rightarrow> ref \<Rightarrow> error option \<times> CameraParameters" where
  "set_constraints cp param_name r =
     (let cp1 = cp\<lparr>constraints := (constraints cp)(param_name \<mapsto> r)\<rparr> in
      case get_parameter_value cp1 param_name of
        Inl e \<Rightarrow> (Some e, cp1)
      | Inr current_value \<Rightarrow>
          (let constrained_value = clamp_value (heap cp1 r) current_value in
           if constrained_value \<noteq> current_value
           then set_parameter_value cp1 param_name constrained_value
           else (None, cp1)))"

definition is_parameter_locked :: "CameraParameters \<Rightarrow> string \<Rightarrow> bool" where
  "is_parameter_locked cp param_name =
     is_locked (case constraints cp param_name of
                  Some r \<Rightarrow> heap cp r
                | None \<Rightarrow> default_constraints)"

text \<open>
  \<open>lock_parameter\<close> writes the \<open>is_locked\<close> field of the object the name refers to,
  in place; a name without an entry first gets a new object.
\<close>

definition lock_parameter :: "CameraParameters \<Rightarrow> string \<Rightarrow> bool \<Rightarrow> CameraParameters" where
  "lock_parameter cp param_name locked =
     (let cp1 = (case constraints cp param_name of
                   Some r \<Rightarrow> cp
                 | None \<Rightarrow>
                     (let (r, cp') = alloc cp default_constraints
                      in cp'\<lparr>constraints := (constraints cp')(param_name \<mapsto> r)\<rparr>));
          r = the (constraints cp1 param_name)
      in cp1\<lparr>heap := (heap cp1)(r := (heap cp1 r)\<lparr>is_locked := locked\<rparr>)\<rparr>)"

definition get_unlocked_parameter_names :: "CameraParameters \<Rightarrow> string list" where
  "get_unlocked_parameter_names cp = filter (\<lambda>name. \<not> is_parameter_locked cp name) param_names"

fun collect_values :: "CameraParameters \<Rightarrow> string list \<Rightarrow> error + real list" where
  "collect_values cp [] = Inr []"
| "collect_values cp (n # ns) =
     (if \<not> is_parameter_locked cp n then
        (case get_parameter_value cp n of
           Inl e \<Rightarrow> Inl e
         | Inr v \<Rightarrow> (case collect_values cp ns of Inl e \<Rightarrow> Inl e | Inr vs \<Rightarrow> Inr (v # vs)))
      else collect_values cp ns)"

definition get_parameter_vector :: "CameraParameters \<Rightarrow> error + real list" where
  "get_parameter_vector cp = collect_values cp param_names"

text \<open>
  The loop of \<open>set_parameter_vector\<close> over \<open>enumerate(unlocked_params)\<close>; the caller has
  checked that there are as many values as names. It stops at the first exception.
\<close>

fun write_values :: "CameraParameters \<Rightarrow> string list \<Rightarrow> real list \<Rightarrow> error option \<times> CameraParameters" where
  "write_values cp (n # ns) (v # vs) =
     (case set_parameter_value cp n v of
        (Some e, cp') \<Rightarrow> (Some e, cp')
      | (None, cp') \<Rightarrow> write_values cp' ns vs)"
| "write_values cp _ _ = (None, cp)"

definition set_parameter_vector :: "CameraParameters \<Rightarrow> real list \<Rightarrow> error option \<times> CameraParameters" where
  "set_parameter_vector cp vals =
     (let unlocked_params = filter (\<lambda>name. \<not> is_parameter_locked cp name) param_names in
      if length vals \<noteq> length unlocked_params
      then (Some (ParameterCountMismatch (length unlocked_params) (length vals)), cp)
      else write_values cp unlocked_params vals)"

section \<open>The Maya scene\<close>

text \<open>
  Maya is outside the repository. The scene is a value of an arbitrary type \<open>'s\<close>, and the
  commands the sources call are the fields of a record of functions on it. A query that
  raises returns \<open>None\<close>; a command that changes the scene returns the new scene, or \<open>None\<close>
  when it raises. \<open>listRelatives\<close> returns the empty list where Maya returns \<open>None\<close>: the
  sources only test the result for truth.
\<close>

record 's maya =
  cmds_objExists :: "'s \<Rightarrow> string \<Rightarrow> bool"
  cmds_nodeType :: "'s \<Rightarrow> string \<Rightarrow> string option"
  cmds_listRelatives_parent :: "'s \<Rightarrow> string \<Rightarrow> string list option"
  cmds_listRelatives_shapes :: "'s \<Rightarrow> string \<Rightarrow> string list option"
  cmds_xform_query_translation :: "'s \<Rightarrow> string \<Rightarrow> vec3 option"
  cmds_xform_query_rotation :: "'s \<Rightarrow> string \<Rightarrow> vec3 option"
  cmds_xform_query_matrix :: "'s \<Rightarrow> string \<Rightarrow> real list option"
  cmds_getAttr :: "'s \<Rightarrow> string \<Rightarrow> real option"
  cmds_xform_translation :: "'s \<Rightarrow> string \<Rightarrow> vec3 \<Rightarrow> 's option"
  cmds_xform_rotation :: "'s \<Rightarrow> string \<Rightarrow> vec3 \<Rightarrow> 's option"
  cmds_setAttr :: "'s \<Rightarrow> string \<Rightarrow> real \<Rightarrow> 's option"
  cmds_delete :: "'s \<Rightarrow> string \<Rightarrow> 's option"
  MMatrix_inverse :: "real list \<Rightarrow> real list"

text \<open>
  An \<open>MMatrix\<close> is built from 16 numbers in row-major order. \<open>MPoint * MMatrix\<close> is the
  row vector times the matrix.
\<close>

definition MMatrix :: "real list \<Rightarrow> real list option" where
  "MMatrix xs = (if length xs = 16 then Some xs else None)"

definition MPoint_times :: "real \<times> real \<times> real \<times> real \<Rightarrow> real list \<Rightarrow> real \<times> real \<times> real \<times> real" where
  "MPoint_times p m =
     (case p of (px, py, pz, pw) \<Rightarrow>
        (px * m ! 0 + py * m ! 4 + pz * m ! 8 + pw * m ! 12,
         px * m ! 1 + py * m ! 5 + pz * m ! 9 + pw * m ! 13,
         px * m ! 2 + py * m ! 6 + pz * m ! 10 + pw * m ! 14,
         px * m ! 3 + py * m ! 7 + pz * m ! 11 + pw * m ! 15))"

definition bind_err :: "error + 'a \<Rightarrow> ('a \<Rightarrow> error + 'b) \<Rightarrow> error + 'b" where
  "bind_err m f = (case m of Inl e \<Rightarrow> Inl e | Inr v \<Rightarrow> f v)"

definition maya_call :: "'a option \<Rightarrow> error + 'a" where
  "maya_call r = (case r of None \<Rightarrow> Inl MayaError | Some v \<Rightarrow> Inr v)"

text \<open>A Python float that may be infinite.\<close>

datatype pyfloat = Finite real | PosInf | NegInf

section \<open>math\_utils.py\<close>

definition project_point ::
  "'s maya \<Rightarrow> vec3 \<Rightarrow> real list \<Rightarrow> real \<Rightarrow> real \<Rightarrow> real \<Rightarrow> real \<Rightarrow> real \<Rightarrow> error + (real \<times> real)" where
  "project_point api point_3d camera_matrix focal film_width film_height offset_x offset_y =
     (let point = (fst point_3d, fst (snd point_3d), snd (snd point_3d), 1) in
      bind_err (maya_call (MMatrix camera_matrix)) (\<lambda>matrix.
        let inv_matrix = MMatrix_inverse api matrix;
            camera_point = MPoint_times point inv_matrix;
            cx = fst camera_point;
            cy = fst (snd camera_point);
            cz = fst (snd (snd camera_point))
        in
        if \<bar>cz\<bar> < 1 / 1000000 then Inr (0, 0)
        else
          let x_proj = - cx / cz;
              y_proj = cy / cz;
              x_film = x_proj * focal + offset_x;
              y_film = y_proj * focal + offset_y
          in
          if film_width * 0.5 = 0 \<or> film_height * 0.5 = 0 then Inl ZeroDivisionError
          else Inr (x_film / (film_width * 0.5), y_film / (film_height * 0.5))))"

definition identity_matrix :: "real list" where
  "identity_matrix = [1, 0, 0, 0,  0, 1, 0, 0,  0, 0, 1, 0,  0, 0, 0, 1]"

section \<open>locator\_pair.py\<close>

record LocatorPair =
  locator_name :: string
  pixel_coords :: "real \<times> real"
  pair_id :: "int option"
  is_valid_flag :: bool

definition new_LocatorPair :: "string \<Rightarrow> real \<times> real \<Rightarrow> int option \<Rightarrow> LocatorPair" where
  "new_LocatorPair name coords pid =
     \<lparr>locator_name = name, pixel_coords = coords, pair_id = pid, is_valid_flag = True\<rparr>"

definition world_position :: "'s maya \<Rightarrow> 's \<Rightarrow> LocatorPair \<Rightarrow> (error + vec3) \<times> LocatorPair" where
  "world_position api s p =
     (if \<not> cmds_objExists api s (locator_name p)
      then (Inl (LocatorMissing (locator_name p)), p\<lparr>is_valid_flag := False\<rparr>)
      else
        (case cmds_xform_query_translation api s (locator_name p) of
           None \<Rightarrow> (Inl (WorldPositionFailed (locator_name p)), p\<lparr>is_valid_flag := False\<rparr>)
         | Some position \<Rightarrow> (Inr position, p)))"

definition is_valid :: "'s maya \<Rightarrow> 's \<Rightarrow> LocatorPair \<Rightarrow> bool" where
  "is_valid api s p =
     (if \<not> is_valid_flag p then False else cmds_objExists api s (locator_name p))"

definition update_pixel_coords :: "LocatorPair \<Rightarrow> real \<times> real \<Rightarrow> LocatorPair" where
  "update_pixel_coords p new_coords = p\<lparr>pixel_coords := new_coords\<rparr>"

definition update_locator_position ::
  "'s maya \<Rightarrow> 's \<Rightarrow> LocatorPair \<Rightarrow> vec3 \<Rightarrow> error option \<times> LocatorPair \<times> 's" where
  "update_locator_position api s p world_pos =
     (if \<not> cmds_objExists api s (locator_name p)
      then (Some (LocatorMissing (locator_name p)), p\<lparr>is_valid_flag := False\<rparr>, s)
      else
        (case cmds_xform_translation api s (locator_name p) world_pos of
           None \<Rightarrow> (Some (UpdatePositionFailed (locator_name p)), p, s)
         | Some s' \<Rightarrow> (None, p, s')))"

definition delete_locator :: "'s maya \<Rightarrow> 's \<Rightarrow> LocatorPair \<Rightarrow> error option \<times> LocatorPair \<times> 's" where
  "delete_locator api s p =
     (if cmds_objExists api s (locator_name p) then
        (case cmds_delete api s (locator_name p) of
           None \<Rightarrow> (Some MayaError, p, s)
         | Some s' \<Rightarrow> (None, p\<lparr>is_valid_flag := False\<rparr>, s'))
      else (None, p\<lparr>is_valid_flag := False\<rparr>, s))"

text \<open>
  \<open>get_projected_coords\<close> in three parts. \<open>read_camera\<close> is the lookup of the camera's
  world matrix and of the attributes of its shape; \<open>project_to_ndc\<close> is the arithmetic that
  follows. Both run inside the \<open>try\<close> block, so the caller wraps every exception they raise.
\<close>

record camera_data =
  camera_mmatrix :: "real list"
  cam_focal_length :: real
  h_aperture :: real
  v_aperture :: real
  h_offset :: real
  v_offset :: real

definition read_camera :: "'s maya \<Rightarrow> 's \<Rightarrow> string \<Rightarrow> error + camera_data" where
  "read_camera api s cam =
     bind_err (maya_call (cmds_nodeType api s cam)) (\<lambda>node_type.
     bind_err (if node_type = ''camera''
               then bind_err (maya_call (cmds_listRelatives_parent api s cam)) (\<lambda>camera_transforms.
                      Inr (if camera_transforms \<noteq> [] then hd camera_transforms else cam))
               else Inr cam) (\<lambda>camera_transform.
     bind_err (maya_call (cmds_xform_query_matrix api s camera_transform)) (\<lambda>camera_matrix.
     bind_err (maya_call (MMatrix camera_matrix)) (\<lambda>mm.
     bind_err (maya_call (cmds_listRelatives_shapes api s camera_transform)) (\<lambda>camera_shapes.
     if camera_shapes = [] then Inl (NoCameraShape cam)
     else
       (let camera_shape = hd camera_shapes in
        bind_err (maya_call (cmds_getAttr api s (camera_shape @ ''.focalLength''))) (\<lambda>fl.
        bind_err (maya_call (cmds_getAttr api s (camera_shape @ ''.horizontalFilmAperture''))) (\<lambda>ha.
        bind_err (maya_call (cmds_getAttr api s (camera_shape @ ''.verticalFilmAperture''))) (\<lambda>va.
        bind_err (maya_call (cmds_getAttr api s (camera_shape @ ''.horizontalFilmOffset''))) (\<lambda>ho.
        bind_err (maya_call (cmds_getAttr api s (camera_shape @ ''.verticalFilmOffset''))) (\<lambda>vo.
        Inr \<lparr>camera_mmatrix = mm, cam_focal_length = fl,
             h_aperture = ha * 25.4, v_aperture = va * 25.4,
             h_offset = ho * 25.4, v_offset = vo * 25.4\<rparr>)))))))))))"

definition camera_space_point :: "'s maya \<Rightarrow> vec3 \<Rightarrow> camera_data \<Rightarrow> real \<times> real \<times> real \<times> real" where
  "camera_space_point api world_pos cd =
     (let point = (fst world_pos, fst (snd world_pos), snd (snd world_pos), 1);
          camera_inv_matrix = MMatrix_inverse api (camera_mmatrix cd)
      in MPoint_times point camera_inv_matrix)"

definition project_to_ndc :: "'s maya \<Rightarrow> vec3 \<Rightarrow> camera_data \<Rightarrow> error + (real \<times> real)" where
  "project_to_ndc api world_pos cd =
     (let csp = camera_space_point api world_pos cd;
          cx = fst csp;
          cy = fst (snd csp);
          cz = fst (snd (snd csp))
      in
      if \<bar>cz\<bar> < 1 / 1000000 then Inl PointAtCamera
      else
        let x_proj = - cx / cz;
            y_proj = cy / cz;
            x_film = x_proj * cam_focal_length cd + h_offset cd;
            y_film = y_proj * cam_focal_length cd + v_offset cd
        in
        if h_aperture cd * 0.5 = 0 \<or> v_aperture cd * 0.5 = 0 then Inl ZeroDivisionError
        else Inr (x_film / (h_aperture cd * 0.5), y_film / (v_aperture cd * 0.5)))"

definition get_projected_coords ::
  "'s maya \<Rightarrow> 's \<Rightarrow> LocatorPair \<Rightarrow> string \<Rightarrow> (error + (real \<times> real)) \<times> LocatorPair" where
  "get_projected_coords api s p cam =
     (if \<not> cmds_objExists api s cam then (Inl (CameraMissing cam), p)
      else if \<not> is_valid api s p then (Inl (LocatorNotValid (locator_name p)), p)
      else
        (case world_position api s p of
           (Inl e, p') \<Rightarrow> (Inl (ProjectFailed (locator_name p) e), p')
         | (Inr world_pos, p') \<Rightarrow>
             (case bind_err (read_camera api s cam) (project_to_ndc api world_pos) of
                Inl e \<Rightarrow> (Inl (ProjectFailed (locator_name p) e), p')
              | Inr ndc \<Rightarrow> (Inr ndc, p'))))"

text \<open>
  The conversion from normalised device coordinates to pixels that
  \<open>get_reprojection_error\<close>, \<open>_objective_function\<close> and \<open>project_locators_to_pixels\<close>
  each write out.
\<close>

definition ndc_to_pixel :: "real \<times> real \<Rightarrow> int \<Rightarrow> int \<Rightarrow> real \<times> real" where
  "ndc_to_pixel proj_ndc width height =
     ((fst proj_ndc + 1.0) * 0.5 * real_of_int width,
      (1.0 - snd proj_ndc) * 0.5 * real_of_int height)"

definition get_reprojection_error ::
  "'s maya \<Rightarrow> 's \<Rightarrow> LocatorPair \<Rightarrow> string \<Rightarrow> int \<Rightarrow> int \<Rightarrow> pyfloat \<times> LocatorPair" where
  "get_reprojection_error api s p cam width height =
     (case get_projected_coords api s p cam of
        (Inl e, p') \<Rightarrow> (PosInf, p')
      | (Inr proj_ndc, p') \<Rightarrow>
          (let proj_pixel = ndc_to_pixel proj_ndc width height;
               dx = fst proj_pixel - fst (pixel_coords p');
               dy = snd proj_pixel - snd (pixel_coords p')
           in (Finite (sqrt (dx * dx + dy * dy)), p')))"

text \<open>
  What can happen to one \<open>LocatorPair\<close> object and the scene it reads: a call of one of
  its methods, or any change of the scene made by someone else.
\<close>

datatype 's event =
    SceneChange 's
  | ReadWorldPosition
  | QueryIsValid
  | UpdatePixelCoords "real \<times> real"
  | UpdateLocatorPosition vec3
  | DeleteLocator
  | GetProjectedCoords string
  | GetReprojectionError string int int

fun step :: "'s maya \<Rightarrow> 's \<times> LocatorPair \<Rightarrow> 's event \<Rightarrow> 's \<times> LocatorPair" where
  "step api (s, p) (SceneChange s') = (s', p)"
| "step api (s, p) ReadWorldPosition = (s, snd (world_position api s p))"
| "step api (s, p) QueryIsValid = (s, p)"
| "step api (s, p) (UpdatePixelCoords c) = (s, update_pixel_coords p c)"
| "step api (s, p) (UpdateLocatorPosition v) =
     (case update_locator_position api s p v of (e, p', s') \<Rightarrow> (s', p'))"
| "step api (s, p) DeleteLocator =
     (case delete_locator api s p of (e, p', s') \<Rightarrow> (s', p'))"
| "step api (s, p) (GetProjectedCoords cam) = (s, snd (get_projected_coords api s p cam))"
| "step api (s, p) (GetReprojectionError cam w h) = (s, snd (get_reprojection_error api s p cam w h))"

definition run_events :: "'s maya \<Rightarrow> 's \<times> LocatorPair \<Rightarrow> 's event list \<Rightarrow> 's \<times> LocatorPair" where
  "run_events api st evs = foldl (step api) st evs"

section \<open>optimization.py\<close>

text \<open>
  scipy is outside the repository. A solver is modelled by what it does to the program:
  from its arguments it chooses a point and calls the objective there, chooses the next
  point from the value returned, and so on, and after finitely many calls it returns a
  result or raises. \<open>'r\<close> is what the objective returns: the residual array for
  \<open>least_squares\<close>, the cost for \<open>minimize\<close>.
\<close>

record 'r OptimizeResult =
  res_success :: bool
  res_x :: "real list"
  res_fun :: 'r
  res_nfev :: nat
  res_nit :: nat

datatype 'r solver =
    Return "'r OptimizeResult"
  | Raise
  | Call "real list" "'r \<Rightarrow> 'r solver"

record scipy =
  least_squares :: "real list \<Rightarrow> string \<Rightarrow> pyfloat list \<times> pyfloat list \<Rightarrow> nat \<Rightarrow> real \<Rightarrow> real
                    \<Rightarrow> (real list) solver"
  minimize :: "real list \<Rightarrow> string \<Rightarrow> (pyfloat \<times> pyfloat) list \<Rightarrow> nat \<Rightarrow> real \<Rightarrow> real
               \<Rightarrow> real solver"

text \<open>
  Running a solver against an objective that reads and writes a state. An exception of
  the objective ends the run.
\<close>

primrec run_solver ::
  "('st \<Rightarrow> real list \<Rightarrow> (error + 'r) \<times> 'st) \<Rightarrow> 'r solver \<Rightarrow> 'st \<Rightarrow> (error + 'r OptimizeResult) \<times> 'st" where
  "run_solver f (Return r) = (\<lambda>st. (Inr r, st))"
| "run_solver f Raise = (\<lambda>st. (Inl SolverError, st))"
| "run_solver f (Call p k) =
     (\<lambda>st. case f st p of
             (Inl e, st') \<Rightarrow> (Inl e, st')
           | (Inr v, st') \<Rightarrow> run_solver f (k v) st')"

text \<open>
  The field \<open>default_method\<close> is \<open>self.method\<close>. The progress callback belongs to
  the caller: \<open>progress_callback\<close> says whether one is set, and \<open>callback_calls\<close> lists
  the arguments of the calls made to it, oldest first.
\<close>

record CameraOptimizer =
  camera_params :: CameraParameters
  locator_pairs :: "LocatorPair list"
  image_width :: int
  image_height :: int
  max_iterations :: nat
  tolerance :: real
  default_method :: string
  progress_callback :: bool
  iteration_count :: nat
  callback_calls :: "(nat \<times> real) list"

definition new_CameraOptimizer :: "CameraParameters \<Rightarrow> LocatorPair list \<Rightarrow> int \<Rightarrow> int \<Rightarrow> CameraOptimizer" where
  "new_CameraOptimizer cp pairs width height =
     \<lparr>camera_params = cp, locator_pairs = pairs, image_width = width, image_height = height,
      max_iterations = 1000, tolerance = 1 / 1000000, default_method = ''lm'',
      progress_callback = False, iteration_count = 0, callback_calls = []\<rparr>"

definition set_progress_callback :: "CameraOptimizer \<Rightarrow> CameraOptimizer" where
  "set_progress_callback opt = opt\<lparr>progress_callback := True\<rparr>"

definition camera_transform :: "CameraParameters \<Rightarrow> string" where
  "camera_transform cp =
     (case camera_transform_field cp of
        Some t \<Rightarrow> if t \<noteq> [] then t else camera_name cp
      | None \<Rightarrow> camera_name cp)"

text \<open>The loop of \<open>_objective_function\<close> over the locator pairs.\<close>

fun residuals_loop ::
  "'s maya \<Rightarrow> 's \<Rightarrow> string \<Rightarrow> int \<Rightarrow> int \<Rightarrow> LocatorPair list \<Rightarrow> real list \<times> LocatorPair list" where
  "residuals_loop api s cam width height [] = ([], [])"
| "residuals_loop api s cam width height (pair # pairs) =
     (if \<not> is_valid api s pair then
        (case residuals_loop api s cam width height pairs of
           (residuals, pairs') \<Rightarrow> (residuals, pair # pairs'))
      else
        (case get_projected_coords api s pair cam of
           (Inl e, pair') \<Rightarrow>
             (case residuals_loop api s cam width height pairs of
                (residuals, pairs') \<Rightarrow> (1000 # 1000 # residuals, pair' # pairs'))
         | (Inr proj_ndc, pair') \<Rightarrow>
             (let proj_pixel = ndc_to_pixel proj_ndc width height;
                  dx = fst proj_pixel - fst (pixel_coords pair');
                  dy = snd proj_pixel - snd (pixel_coords pair')
              in case residuals_loop api s cam width height pairs of
                   (residuals, pairs') \<Rightarrow> (dx # dy # residuals, pair' # pairs'))))"

definition objective_function ::
  "'s maya \<Rightarrow> 's \<Rightarrow> CameraOptimizer \<Rightarrow> real list \<Rightarrow> (error + real list) \<times> CameraOptimizer" where
  "objective_function api s opt params =
     (case set_parameter_vector (camera_params opt) params of
        (Some e, cp') \<Rightarrow> (Inl e, opt\<lparr>camera_params := cp'\<rparr>)
      | (None, cp') \<Rightarrow>
          (case residuals_loop api s (camera_transform cp') (image_width opt) (image_height opt)
                  (locator_pairs opt) of
             (residuals, pairs') \<Rightarrow>
               (Inr residuals, opt\<lparr>camera_params := cp', locator_pairs := pairs'\<rparr>)))"

definition sum_of_squares :: "real list \<Rightarrow> real" where
  "sum_of_squares residuals = sum_list (map (\<lambda>r. r ^ 2) residuals)"

definition cost_function ::
  "'s maya \<Rightarrow> 's \<Rightarrow> CameraOptimizer \<Rightarrow> real list \<Rightarrow> (error + real) \<times> CameraOptimizer" where
  "cost_function api s opt params =
     (case objective_function api s opt params of
        (Inl e, opt1) \<Rightarrow> (Inl e, opt1)
      | (Inr residuals, opt1) \<Rightarrow>
          (let cost = sum_of_squares residuals;
               opt2 = opt1\<lparr>iteration_count := iteration_count opt1 + 1\<rparr>;
               opt3 = (if progress_callback opt2
                       then opt2\<lparr>callback_calls := callback_calls opt2 @ [(iteration_count opt2, cost)]\<rparr>
                       else opt2)
           in (Inr cost, opt3)))"

definition get_parameter_bounds :: "CameraParameters \<Rightarrow> pyfloat list \<times> pyfloat list" where
  "get_parameter_bounds cp =
     (let names = get_unlocked_parameter_names cp in
      (map (\<lambda>param_name. case min_value (get_constraints cp param_name) of
                            Some v \<Rightarrow> Finite v | None \<Rightarrow> NegInf) names,
       map (\<lambda>param_name. case max_value (get_constraints cp param_name) of
                            Some v \<Rightarrow> Finite v | None \<Rightarrow> PosInf) names))"

text \<open>
  The end of \<open>optimize\<close>: the solver's final point is written back whatever its success
  flag says.
\<close>

definition apply_result ::
  "CameraOptimizer \<Rightarrow> bool \<Rightarrow> real list \<Rightarrow> real \<Rightarrow> nat \<Rightarrow> (error + (bool \<times> real \<times> nat)) \<times> CameraOptimizer" where
  "apply_result opt ok final_params final_error iterations =
     (case set_parameter_vector (camera_params opt) final_params of
        (Some e, cp') \<Rightarrow> (Inl (OptimizationFailed e), opt\<lparr>camera_params := cp'\<rparr>)
      | (None, cp') \<Rightarrow> (Inr (ok, final_error, iterations), opt\<lparr>camera_params := cp'\<rparr>))"

text \<open>
  The \<open>try\<close> block of \<open>optimize\<close> up to the solver's result: the choice between
  \<open>least_squares\<close> on the residuals and \<open>minimize\<close> on the cost, and what is read from the
  result (success flag, final point, final error, iterations).
\<close>

definition run_method ::
  "scipy \<Rightarrow> 's maya \<Rightarrow> 's \<Rightarrow> CameraOptimizer \<Rightarrow> real list \<Rightarrow> string
   \<Rightarrow> (error + (bool \<times> real list \<times> real \<times> nat)) \<times> CameraOptimizer" where
  "run_method sp api s opt0 initial_params opt_method =
     (if opt_method \<in> set [''lm'', ''trf'', ''dogbox''] then
        (let bounds = get_parameter_bounds (camera_params opt0) in
         case run_solver (objective_function api s)
                (least_squares sp initial_params opt_method bounds
                   (max_iterations opt0) (tolerance opt0) (tolerance opt0)) opt0 of
           (Inl e, opt1) \<Rightarrow> (Inl e, opt1)
         | (Inr result, opt1) \<Rightarrow>
             (Inr (res_success result, res_x result,
                   sum_of_squares (res_fun result), res_nfev result), opt1))
      else
        (let (lower_bounds, upper_bounds) = get_parameter_bounds (camera_params opt0);
             bounds = map (\<lambda>(lb, ub). (if lb \<noteq> NegInf then lb else Finite (- 1000000),
                                       if ub \<noteq> PosInf then ub else Finite 1000000))
                        (zip lower_bounds upper_bounds)
         in
         case run_solver (cost_function api s)
                (minimize sp initial_params opt_method bounds
                   (max_iterations opt0) (tolerance opt0) (tolerance opt0)) opt0 of
           (Inl e, opt1) \<Rightarrow> (Inl e, opt1)
         | (Inr result, opt1) \<Rightarrow>
             (Inr (res_success result, res_x result, res_fun result, res_nit result), opt1)))"

text \<open>\<open>method or self.method\<close>: the empty string counts as no method.\<close>

definition chosen_method :: "CameraOptimizer \<Rightarrow> string option \<Rightarrow> string" where
  "chosen_method opt method_arg =
     (case method_arg of
        Some m \<Rightarrow> if m \<noteq> [] then m else default_method opt
      | None \<Rightarrow> default_method opt)"

definition optimize ::
  "scipy \<Rightarrow> 's maya \<Rightarrow> 's \<Rightarrow> CameraOptimizer \<Rightarrow> string option
   \<Rightarrow> (error + (bool \<times> real \<times> nat)) \<times> CameraOptimizer" where
  "optimize sp api s opt method_arg =
     (if locator_pairs opt = [] then (Inl NoLocatorPairs, opt)
      else
        let valid_pairs = filter (is_valid api s) (locator_pairs opt) in
        if valid_pairs = [] then (Inl NoValidLocatorPairs, opt)
        else if length valid_pairs < 3 then (Inl TooFewValidPairs, opt)
        else
          (case get_parameter_vector (camera_params opt) of
             Inl e \<Rightarrow> (Inl e, opt)
           | Inr initial_params \<Rightarrow>
               if length initial_params = 0 then (Inl NoUnlockedParameters, opt)
               else
                 let opt0 = opt\<lparr>iteration_count := 0\<rparr>;
                     opt_method = chosen_method opt0 method_arg
                 in
                 (case run_method sp api s opt0 initial_params opt_method of
                    (Inl e, opt1) \<Rightarrow> (Inl (OptimizationFailed e), opt1)
                  | (Inr (ok, final_params, final_error, iterations), opt1) \<Rightarrow>
                      apply_result opt1 ok final_params final_error iterations)))"

text \<open>
  \<open>validate_setup\<close> without its first three checks, which always pass here: scipy is
  available (the constructor raises otherwise), the optimizer has a camera parameters
  object, and reading \<open>camera_transform\<close> raises nothing.
\<close>

definition validate_setup :: "'s maya \<Rightarrow> 's \<Rightarrow> CameraOptimizer \<Rightarrow> bool \<times> string" where
  "validate_setup api s opt =
     (if locator_pairs opt = [] then (False, ''No locator pairs available'')
      else if length (filter (is_valid api s) (locator_pairs opt)) < 3
        then (False, ''At least 3 valid locator pairs required'')
      else if get_unlocked_parameter_names (camera_params opt) = []
        then (False, ''No unlocked parameters available for optimization'')
      else if image_width opt \<le> 0 \<or> image_height opt \<le> 0
        then (False, ''Invalid image dimensions'')
      else (True, ''Setup is valid''))"

section \<open>camera\_parameters.py: writing to the scene\<close>

text \<open>
  A transform or shape name that is \<open>None\<close> makes the Maya command it is passed to raise.
\<close>

definition apply_to_maya :: "'s maya \<Rightarrow> 's \<Rightarrow> CameraParameters \<Rightarrow> error option \<times> 's" where
  "apply_to_maya api s cp =
     (if \<not> cmds_objExists api s (camera_name cp) then (Some (CameraMissing (camera_name cp)), s)
      else
        (case camera_transform_field cp of
           None \<Rightarrow> (Some MayaError, s)
         | Some transform \<Rightarrow>
        (case cmds_xform_translation api s transform (translation cp) of
           None \<Rightarrow> (Some MayaError, s)
         | Some s1 \<Rightarrow>
        (case cmds_xform_rotation api s1 transform (rotation cp) of
           None \<Rightarrow> (Some MayaError, s1)
         | Some s2 \<Rightarrow>
        (case camera_shape_field cp of
           None \<Rightarrow> (Some MayaError, s2)
         | Some shape \<Rightarrow>
        (case cmds_setAttr api s2 (shape @ ''.focalLength'') (focal_length cp) of
           None \<Rightarrow> (Some MayaError, s2)
         | Some s3 \<Rightarrow>
        (case cmds_setAttr api s3 (shape @ ''.horizontalFilmOffset'') (film_offset_x cp / 25.4) of
           None \<Rightarrow> (Some MayaError, s3)
         | Some s4 \<Rightarrow>
        (case cmds_setAttr api s4 (shape @ ''.verticalFilmOffset'') (film_offset_y cp / 25.4) of
           None \<Rightarrow> (Some MayaError, s4)
         | Some s5 \<Rightarrow> (None, s5)))))))))"

section \<open>camera\_matcher.py\<close>

text \<open>
  \<open>CameraMatcher\<close> and its optimizer hold references to \<open>CameraParameters\<close> objects.
  The matcher's own reference is either to the object the optimizer holds or to another
  object. The list of locator pairs is one list object, which the optimizer holds too;
  \<open>optimize_camera\<close> reaches it only through the optimizer.
\<close>

datatype params_ref = OptimizersObject | OtherObject CameraParameters

record CameraMatcher =
  matcher_camera_params :: "params_ref option"
  matcher_optimizer :: "CameraOptimizer option"
  matcher_image_path :: "string option"
  matcher_image_width :: int
  matcher_image_height :: int
  next_pair_id :: int

definition optimize_camera ::
  "scipy \<Rightarrow> 's maya \<Rightarrow> 's \<Rightarrow> CameraMatcher \<Rightarrow> string option
   \<Rightarrow> (error + (bool \<times> real \<times> nat)) \<times> CameraMatcher \<times> 's" where
  "optimize_camera sp api s m method_arg =
     (case matcher_optimizer m of
        None \<Rightarrow> (Inl OptimizerNotInitialized, m, s)
      | Some opt \<Rightarrow>
          (case validate_setup api s opt of
             (is_ok, error_msg) \<Rightarrow>
               if \<not> is_ok then (Inl (SetupInvalid error_msg), m, s)
               else
                 (case optimize sp api s opt method_arg of
                    (Inl e, opt') \<Rightarrow> (Inl e, m\<lparr>matcher_optimizer := Some opt'\<rparr>, s)
                  | (Inr (ok, final_error, iterations), opt') \<Rightarrow>
                      (let m' = m\<lparr>matcher_optimizer := Some opt'\<rparr> in
                       if ok \<and> matcher_camera_params m' \<noteq> None then
                         (case apply_to_maya api s
                                 (case the (matcher_camera_params m') of
                                    OptimizersObject \<Rightarrow> camera_params opt'
                                  | OtherObject cp \<Rightarrow> cp) of
                            (Some e, s') \<Rightarrow> (Inl e, m', s')
                          | (None, s') \<Rightarrow> (Inr (ok, final_error, iterations), m', s'))
                       else (Inr (ok, final_error, iterations), m', s)))))"

text \<open>
  \<open>configure_optimization_parameters\<close> of example\_usage.py, for a matcher that has camera
  parameters: one constraints object is made for the three translations, one for the
  three rotations and one for the two film offsets.
\<close>

fun set_constraints_all :: "CameraParameters \<Rightarrow> string list \<Rightarrow> ref \<Rightarrow> error option \<times> CameraParameters" where
  "set_constraints_all cp [] r = (None, cp)"
| "set_constraints_all cp (n # ns) r =
     (case set_constraints cp n r of
        (Some e, cp') \<Rightarrow> (Some e, cp')
      | (None, cp') \<Rightarrow> set_constraints_all cp' ns r)"

definition configure_optimization_parameters :: "CameraParameters \<Rightarrow> error option \<times> CameraParameters" where
  "configure_optimization_parameters cp =
     (let cp1 = lock_parameter cp ''focal_length'' True;
          (translation_constraint, cp2) = alloc cp1 (new_ParameterConstraints False (Some (- 50)) (Some 50))
      in case set_constraints_all cp2 [''translate_x'', ''translate_y'', ''translate_z''] translation_constraint of
           (Some e, cp3) \<Rightarrow> (Some e, cp3)
         | (None, cp3) \<Rightarrow>
      (let (rotation_constraint, cp4) = alloc cp3 (new_ParameterConstraints False (Some (- 180)) (Some 180))
       in case set_constraints_all cp4 [''rotate_x'', ''rotate_y'', ''rotate_z''] rotation_constraint of
            (Some e, cp5) \<Rightarrow> (Some e, cp5)
          | (None, cp5) \<Rightarrow>
      (let (film_offset_constraint, cp6) = alloc cp5 (new_ParameterConstraints False (Some (- 10)) (Some 10))
       in set_constraints_all cp6 [''film_offset_x'', ''film_offset_y''] film_offset_constraint)))"

section \<open>An example scene and an example solver\<close>

text \<open>
  A small scene to run the functions on: locators with positions, and one camera
  \<open>camera1\<close> with shape \<open>cameraShape1\<close>. Its camera is never rotated (the matrix query
  raises if it is), so its world matrix is a translation and the inverse of such a matrix
  negates the translation row.
\<close>

record example_scene =
  ex_locators :: "(string \<times> vec3) list"
  ex_cam_translation :: vec3
  ex_cam_rotation :: vec3
  ex_cam_attrs :: "(string \<times> real) list"

definition translation_matrix :: "vec3 \<Rightarrow> real list" where
  "translation_matrix t =
     [1, 0, 0, 0,  0, 1, 0, 0,  0, 0, 1, 0,  fst t, fst (snd t), snd (snd t), 1]"

definition example_maya :: "example_scene maya" where
  "example_maya =
     \<lparr>cmds_objExists = (\<lambda>s n. if n = ''camera1'' \<or> n = ''cameraShape1'' then True
                              else map_of (ex_locators s) n \<noteq> None),
      cmds_nodeType = (\<lambda>s n. if n = ''cameraShape1'' then Some ''camera''
                             else if n = ''camera1'' then Some ''transform''
                             else if map_of (ex_locators s) n \<noteq> None then Some ''transform''
                             else None),
      cmds_listRelatives_parent = (\<lambda>s n. if n = ''cameraShape1'' then Some [''camera1''] else Some []),
      cmds_listRelatives_shapes = (\<lambda>s n. if n = ''camera1'' then Some [''cameraShape1''] else Some []),
      cmds_xform_query_translation = (\<lambda>s n. if n = ''camera1'' then Some (ex_cam_translation s)
                                            else map_of (ex_locators s) n),
      cmds_xform_query_rotation = (\<lambda>s n. if n = ''camera1'' then Some (ex_cam_rotation s)
                                         else if map_of (ex_locators s) n \<noteq> None then Some (0, 0, 0)
                                         else None),
      cmds_xform_query_matrix = (\<lambda>s n. if n = ''camera1'' \<and> ex_cam_rotation s = (0, 0, 0)
                                       then Some (translation_matrix (ex_cam_translation s))
                                       else None),
      cmds_getAttr = (\<lambda>s a. map_of (ex_cam_attrs s) a),
      cmds_xform_translation = (\<lambda>s n v. if n = ''camera1'' then Some (s\<lparr>ex_cam_translation := v\<rparr>)
                                        else if map_of (ex_locators s) n \<noteq> None
                                        then Some (s\<lparr>ex_locators := (n, v) # ex_locators s\<rparr>)
                                        else None),
      cmds_xform_rotation = (\<lambda>s n v. if n = ''camera1'' then Some (s\<lparr>ex_cam_rotation := v\<rparr>) else None),
      cmds_setAttr = (\<lambda>s a v. if map_of (ex_cam_attrs s) a \<noteq> None
                              then Some (s\<lparr>ex_cam_attrs := (a, v) # ex_cam_attrs s\<rparr>)
                              else None),
      cmds_delete = (\<lambda>s n. if map_of (ex_locators s) n \<noteq> None
                           then Some (s\<lparr>ex_locators := filter (\<lambda>(k, v). k \<noteq> n) (ex_locators s)\<rparr>)
                           else None),
      MMatrix_inverse = (\<lambda>m. m[12 := - m ! 12, 13 := - m ! 13, 14 := - m ! 14])\<rparr>"

text \<open>
  The camera of the scenario: at the origin, focal length 35 mm, film back 36 by 24 mm
  (Maya stores apertures and offsets in inches), no film offset. Three locators in front
  of it.
\<close>

definition example_scene0 :: example_scene where
  "example_scene0 =
     \<lparr>ex_locators = [(''loc1'', (0, 0, - 10)), (''loc2'', (1, 0, - 10)), (''loc3'', (0, 1, - 10))],
      ex_cam_translation = (0, 0, 0),
      ex_cam_rotation = (0, 0, 0),
      ex_cam_attrs = [(''cameraShape1.focalLength'', 35),
                      (''cameraShape1.horizontalFilmAperture'', 36 / 25.4),
                      (''cameraShape1.verticalFilmAperture'', 24 / 25.4),
                      (''cameraShape1.horizontalFilmOffset'', 0),
                      (''cameraShape1.verticalFilmOffset'', 0)]\<rparr>"

definition example_pairs :: "LocatorPair list" where
  "example_pairs =
     [new_LocatorPair ''loc1'' (960, 540) (Some 1),
      new_LocatorPair ''loc2'' (1100, 540) (Some 2),
      new_LocatorPair ''loc3'' (960, 400) (Some 3)]"

definition example_params :: CameraParameters where
  "example_params =
     (new_CameraParameters ''camera1'')
       \<lparr>camera_shape_field := Some ''cameraShape1'', camera_transform_field := Some ''camera1''\<rparr>"

definition example_optimizer :: CameraOptimizer where
  "example_optimizer = new_CameraOptimizer example_params example_pairs 1920 1080"

definition example_matcher :: CameraMatcher where
  "example_matcher =
     \<lparr>matcher_camera_params = Some OptimizersObject, matcher_optimizer = Some example_optimizer,
      matcher_image_path = None, matcher_image_width = 1920, matcher_image_height = 1080,
      next_pair_id = 4\<rparr>"

text \<open>
  A solver that calls the objective once, at the initial point, and returns that point
  moved by one in every coordinate, with the success flag it is given.
\<close>

definition one_call :: "bool \<Rightarrow> real list \<Rightarrow> 'r solver" where
  "one_call ok x0 =
     Call x0 (\<lambda>v. Return \<lparr>res_success = ok, res_x = map (\<lambda>c. c + 1) x0, res_fun = v,
                          res_nfev = 1, res_nit = 1\<rparr>)"

definition example_scipy :: "bool \<Rightarrow> scipy" where
  "example_scipy ok =
     \<lparr>least_squares = (\<lambda>x0 m bounds max_nfev ftol xtol. one_call ok x0),
      minimize = (\<lambda>x0 m bounds maxiter ftol gtol. one_call ok x0)\<rparr>"

section \<open>Properties of the parameter set\<close>

lemma param_names_distinct: "distinct param_names"
  by (simp add: param_names_def)

lemma param_name_cases:
  obtains "n = ''translate_x''" | "n = ''translate_y''" | "n = ''translate_z''"
  | "n = ''rotate_x''" | "n = ''rotate_y''" | "n = ''rotate_z''"
  | "n = ''focal_length''" | "n = ''film_offset_x''" | "n = ''film_offset_y''"
  | "n \<notin> set param_names"
  unfolding param_names_def by auto

lemma clamp_value_default: "clamp_value default_constraints v = v"
  by (simp add: clamp_value_def default_constraints_def new_ParameterConstraints_def)

lemma set_parameter_value_ok:
  "n \<in> set param_names \<Longrightarrow> fst (set_parameter_value cp n v) = None"
  by (cases n rule: param_name_cases) (simp_all add: set_parameter_value_def Let_def)

lemma set_parameter_value_frame:
  "constraints (snd (set_parameter_value cp n v)) = constraints cp"
  "heap (snd (set_parameter_value cp n v)) = heap cp"
  "next_ref (snd (set_parameter_value cp n v)) = next_ref cp"
  "film_aperture_h (snd (set_parameter_value cp n v)) = film_aperture_h cp"
  "film_aperture_v (snd (set_parameter_value cp n v)) = film_aperture_v cp"
  by (simp_all add: set_parameter_value_def Let_def)

lemma get_constraints_after_set:
  "get_constraints (snd (set_parameter_value cp n v)) m = get_constraints cp m"
  by (cases "constraints cp m") (simp_all add: get_constraints_def set_parameter_value_frame)

lemma is_locked_after_set:
  "is_parameter_locked (snd (set_parameter_value cp n v)) m = is_parameter_locked cp m"
  by (cases "constraints cp m") (simp_all add: is_parameter_locked_def set_parameter_value_frame)

lemma get_after_set_other:
  assumes "m \<noteq> n"
  shows "get_parameter_value (snd (set_parameter_value cp n v)) m = get_parameter_value cp m"
  by (cases n rule: param_name_cases)
     (use assms in \<open>simp_all add: set_parameter_value_def get_parameter_value_def Let_def param_names_def\<close>)

lemma get_after_set_same:
  assumes "n \<in> set param_names"
  shows "get_parameter_value (snd (set_parameter_value cp n v)) n = Inr (clamp_value (get_constraints cp n) v)"
  by (cases n rule: param_name_cases)
     (use assms in \<open>simp_all add: set_parameter_value_def get_parameter_value_def get_constraints_def Let_def
        clamp_value_default split: option.splits\<close>)

lemma write_values_spec:
  "distinct ns \<Longrightarrow> set ns \<subseteq> set param_names \<Longrightarrow> length vs = length ns \<Longrightarrow>
   fst (write_values cp ns vs) = None \<and>
   constraints (snd (write_values cp ns vs)) = constraints cp \<and>
   heap (snd (write_values cp ns vs)) = heap cp \<and>
   (\<forall>i < length ns. get_parameter_value (snd (write_values cp ns vs)) (ns ! i)
        = Inr (clamp_value (get_constraints cp (ns ! i)) (vs ! i))) \<and>
   (\<forall>m. m \<notin> set ns \<longrightarrow> get_parameter_value (snd (write_values cp ns vs)) m = get_parameter_value cp m)"
proof (induction ns arbitrary: cp vs)
  case Nil
  then show ?case by simp
next
  case (Cons n ns)
  then obtain v vs' where vs: "vs = v # vs'" by (cases vs) auto
  have n_notin: "n \<notin> set ns" using Cons.prems(1) by simp
  have n_in: "n \<in> set param_names" using Cons.prems(2) by simp
  define cp1 where "cp1 = snd (set_parameter_value cp n v)"
  have cp1: "set_parameter_value cp n v = (None, cp1)"
    using set_parameter_value_ok [OF n_in, of cp v] unfolding cp1_def
    by (cases "set_parameter_value cp n v") simp
  have wv: "write_values cp (n # ns) vs = write_values cp1 ns vs'"
    by (simp add: vs cp1)
  have prems': "distinct ns" "set ns \<subseteq> set param_names" "length vs' = length ns"
    using Cons.prems vs by simp_all
  note IH = Cons.IH [OF prems', of cp1]
  have c1: "fst (write_values cp1 ns vs') = None" using IH by blast
  have c2: "constraints (snd (write_values cp1 ns vs')) = constraints cp"
    using IH set_parameter_value_frame(1) [of cp n v] unfolding cp1_def by simp
  have c3: "heap (snd (write_values cp1 ns vs')) = heap cp"
    using IH set_parameter_value_frame(2) [of cp n v] unfolding cp1_def by simp
  have ih_idx: "\<And>i. i < length ns \<Longrightarrow> get_parameter_value (snd (write_values cp1 ns vs')) (ns ! i)
        = Inr (clamp_value (get_constraints cp1 (ns ! i)) (vs' ! i))"
    using IH by blast
  have ih_other: "\<And>m. m \<notin> set ns \<Longrightarrow> get_parameter_value (snd (write_values cp1 ns vs')) m = get_parameter_value cp1 m"
    using IH by blast
  have gc: "\<And>m. get_constraints cp1 m = get_constraints cp m"
    unfolding cp1_def by (rule get_constraints_after_set)
  have head: "get_parameter_value (snd (write_values cp1 ns vs')) n = Inr (clamp_value (get_constraints cp n) v)"
    using ih_other [OF n_notin] get_after_set_same [OF n_in, of cp v] unfolding cp1_def by simp
  have c4: "\<forall>i < length (n # ns). get_parameter_value (snd (write_values cp1 ns vs')) ((n # ns) ! i)
        = Inr (clamp_value (get_constraints cp ((n # ns) ! i)) (vs ! i))"
  proof (intro allI impI)
    fix i assume i: "i < length (n # ns)"
    show "get_parameter_value (snd (write_values cp1 ns vs')) ((n # ns) ! i)
        = Inr (clamp_value (get_constraints cp ((n # ns) ! i)) (vs ! i))"
    proof (cases i)
      case 0
      then show ?thesis using head vs by simp
    next
      case (Suc j)
      then have "j < length ns" using i by simp
      from ih_idx [OF this] show ?thesis using Suc vs gc by simp
    qed
  qed
  have c5: "\<forall>m. m \<notin> set (n # ns) \<longrightarrow> get_parameter_value (snd (write_values cp1 ns vs')) m = get_parameter_value cp m"
  proof (intro allI impI)
    fix m assume m: "m \<notin> set (n # ns)"
    then have "m \<notin> set ns" "m \<noteq> n" by simp_all
    then show "get_parameter_value (snd (write_values cp1 ns vs')) m = get_parameter_value cp m"
      using ih_other [of m] get_after_set_other [of m n cp v] unfolding cp1_def by simp
  qed
  show ?case unfolding wv using c1 c2 c3 c4 c5 by blast
qed

lemma unlocked_names_props:
  "distinct (get_unlocked_parameter_names cp)"
  "set (get_unlocked_parameter_names cp) \<subseteq> set param_names"
  by (simp_all add: get_unlocked_parameter_names_def param_names_distinct)

text \<open>
  Claim C5. \<open>set_parameter_vector\<close> takes the unlocked names from the fixed list of nine
  names. A value list of another length raises the count error and leaves the object as it
  was. A value list of that length raises nothing, and afterwards the i-th unlocked name
  holds the i-th value clamped by that name's constraints, while every other name reads as
  before.
\<close>

theorem set_parameter_vector_spec:
  "get_unlocked_parameter_names cp = filter (\<lambda>name. \<not> is_parameter_locked cp name)
       [''translate_x'', ''translate_y'', ''translate_z'', ''rotate_x'', ''rotate_y'', ''rotate_z'',
        ''focal_length'', ''film_offset_x'', ''film_offset_y'']
   \<and> (length vals \<noteq> length (get_unlocked_parameter_names cp) \<longrightarrow>
        set_parameter_vector cp vals =
          (Some (ParameterCountMismatch (length (get_unlocked_parameter_names cp)) (length vals)), cp))
   \<and> (length vals = length (get_unlocked_parameter_names cp) \<longrightarrow>
        fst (set_parameter_vector cp vals) = None \<and>
        (\<forall>i < length vals.
           get_parameter_value (snd (set_parameter_vector cp vals)) (get_unlocked_parameter_names cp ! i)
             = Inr (clamp_value (get_constraints cp (get_unlocked_parameter_names cp ! i)) (vals ! i))) \<and>
        (\<forall>m. m \<notin> set (get_unlocked_parameter_names cp) \<longrightarrow>
           get_parameter_value (snd (set_parameter_vector cp vals)) m = get_parameter_value cp m))"
proof (intro conjI impI)
  show "get_unlocked_parameter_names cp = filter (\<lambda>name. \<not> is_parameter_locked cp name)
       [''translate_x'', ''translate_y'', ''translate_z'', ''rotate_x'', ''rotate_y'', ''rotate_z'',
        ''focal_length'', ''film_offset_x'', ''film_offset_y'']"
    unfolding get_unlocked_parameter_names_def param_names_def by (rule refl)
next
  assume "length vals \<noteq> length (get_unlocked_parameter_names cp)"
  then show "set_parameter_vector cp vals =
          (Some (ParameterCountMismatch (length (get_unlocked_parameter_names cp)) (length vals)), cp)"
    by (simp add: set_parameter_vector_def get_unlocked_parameter_names_def Let_def)
next
  assume len: "length vals = length (get_unlocked_parameter_names cp)"
  have eq: "set_parameter_vector cp vals = write_values cp (get_unlocked_parameter_names cp) vals"
    using len by (simp add: set_parameter_vector_def get_unlocked_parameter_names_def Let_def)
  note W = write_values_spec [OF unlocked_names_props len, of cp]
  show "fst (set_parameter_vector cp vals) = None" unfolding eq using W by blast
  show "\<forall>i < length vals.
           get_parameter_value (snd (set_parameter_vector cp vals)) (get_unlocked_parameter_names cp ! i)
             = Inr (clamp_value (get_constraints cp (get_unlocked_parameter_names cp ! i)) (vals ! i))"
    unfolding eq len using W by blast
  show "\<forall>m. m \<notin> set (get_unlocked_parameter_names cp) \<longrightarrow>
           get_parameter_value (snd (set_parameter_vector cp vals)) m = get_parameter_value cp m"
    unfolding eq using W by blast
qed


text \<open>
  On a new parameter set all nine names are unlocked: one value is too few, and of nine
  values the focal length 2000 is stored as its upper bound 1000.
\<close>

lemma unlocked_new: "get_unlocked_parameter_names (new_CameraParameters n) = param_names"
  by (simp add: get_unlocked_parameter_names_def is_parameter_locked_def new_CameraParameters_def
      initial_constraints_def initial_heap_def new_ParameterConstraints_def param_names_def)

theorem set_parameter_vector_spec_witness:
  "length [1, 2, 3, 4, 5, 6, 2000, 60, - 70 :: real] = length (get_unlocked_parameter_names (new_CameraParameters ''camera1''))
   \<and> length [1 :: real] \<noteq> length (get_unlocked_parameter_names (new_CameraParameters ''camera1''))
   \<and> set_parameter_vector (new_CameraParameters ''camera1'') [1]
        = (Some (ParameterCountMismatch 9 1), new_CameraParameters ''camera1'')
   \<and> fst (set_parameter_vector (new_CameraParameters ''camera1'') [1, 2, 3, 4, 5, 6, 2000, 60, - 70]) = None
   \<and> get_parameter_value
        (snd (set_parameter_vector (new_CameraParameters ''camera1'') [1, 2, 3, 4, 5, 6, 2000, 60, - 70]))
        ''focal_length'' = Inr 1000"
proof -
  let ?cp = "new_CameraParameters ''camera1''"
  let ?vs = "[1, 2, 3, 4, 5, 6, 2000, 60, - 70 :: real]"
  have names: "get_unlocked_parameter_names ?cp = param_names" by (rule unlocked_new)
  have len: "length ?vs = length (get_unlocked_parameter_names ?cp)"
    by (simp add: names param_names_def)
  have nlen: "length [1 :: real] \<noteq> length (get_unlocked_parameter_names ?cp)"
    by (simp add: names param_names_def)
  have mismatch: "set_parameter_vector ?cp [1] = (Some (ParameterCountMismatch 9 1), ?cp)"
    using set_parameter_vector_spec [of ?cp "[1]"] nlen by (simp add: names param_names_def)
  have ok: "fst (set_parameter_vector ?cp ?vs) = None"
    using set_parameter_vector_spec [of ?cp ?vs] len by blast
  have "\<forall>i < length ?vs.
           get_parameter_value (snd (set_parameter_vector ?cp ?vs)) (get_unlocked_parameter_names ?cp ! i)
             = Inr (clamp_value (get_constraints ?cp (get_unlocked_parameter_names ?cp ! i)) (?vs ! i))"
    using set_parameter_vector_spec [of ?cp ?vs] len by blast
  then have "get_parameter_value (snd (set_parameter_vector ?cp ?vs)) (get_unlocked_parameter_names ?cp ! 6)
             = Inr (clamp_value (get_constraints ?cp (get_unlocked_parameter_names ?cp ! 6)) (?vs ! 6))"
    by simp
  then have "get_parameter_value (snd (set_parameter_vector ?cp ?vs)) ''focal_length''
             = Inr (clamp_value (get_constraints ?cp ''focal_length'') 2000)"
    unfolding names param_names_def by simp
  moreover have "clamp_value (get_constraints ?cp ''focal_length'') 2000 = 1000"
    by (simp add: get_constraints_def new_CameraParameters_def
        initial_constraints_def initial_heap_def new_ParameterConstraints_def clamp_value_def)
  ultimately have fl: "get_parameter_value (snd (set_parameter_vector ?cp ?vs)) ''focal_length'' = Inr 1000"
    by simp
  show ?thesis using len nlen mismatch ok fl by blast
qed

section \<open>Properties of the projection\<close>

text \<open>
  Claim C9. A camera with the identity world matrix (at the origin, looking down the
  negative Z axis), focal length 35, film back 36 by 24 and no film offset projects the
  point (0, 0, -10) to the centre of the normalised image, and the conversion to pixels of
  a 1920 by 1080 image gives the pixel (960, 540). The inverse of the identity matrix is
  the identity matrix.
\<close>

theorem project_image_center:
  assumes "MMatrix_inverse api identity_matrix = identity_matrix"
  shows "project_point api (0, 0, - 10) identity_matrix 35 36 24 0 0 = Inr (0, 0)
         \<and> ndc_to_pixel (0, 0) 1920 1080 = (960, 540)"
  using assms
  by (simp add: project_point_def bind_err_def maya_call_def MMatrix_def identity_matrix_def
      MPoint_times_def ndc_to_pixel_def Let_def)

theorem project_image_center_witness:
  "MMatrix_inverse example_maya identity_matrix = identity_matrix
   \<and> project_point example_maya (0, 0, - 10) identity_matrix 35 36 24 0 0 = Inr (0, 0)
   \<and> ndc_to_pixel (0, 0) 1920 1080 = (960, 540)"
proof -
  have inv: "MMatrix_inverse example_maya identity_matrix = identity_matrix"
    by (simp add: example_maya_def identity_matrix_def)
  from project_image_center [OF inv] inv show ?thesis by simp
qed

lemma bind_err_simps:
  "bind_err (Inl e) f = Inl e"
  "bind_err (Inr v) f = f v"
  by (simp_all add: bind_err_def)

lemma get_projected_coords_degenerate:
  assumes cam: "cmds_objExists api s cam"
    and valid: "is_valid api s p"
    and wp: "world_position api s p = (Inr world_pos, p')"
    and rc: "read_camera api s cam = Inr cd"
    and z: "\<bar>fst (snd (snd (camera_space_point api world_pos cd)))\<bar> < 1 / 1000000"
  shows "get_projected_coords api s p cam = (Inl (ProjectFailed (locator_name p) PointAtCamera), p')"
proof -
  have "project_to_ndc api world_pos cd = Inl PointAtCamera"
    using z by (simp add: project_to_ndc_def Let_def)
  then show ?thesis
    using cam valid wp rc by (simp add: get_projected_coords_def bind_err_simps)
qed

lemma project_point_degenerate:
  assumes len: "length camera_matrix = 16"
    and z: "\<bar>fst (snd (snd (MPoint_times (fst point_3d, fst (snd point_3d), snd (snd point_3d), 1)
                (MMatrix_inverse api camera_matrix))))\<bar> < 1 / 1000000"
  shows "project_point api point_3d camera_matrix focal film_width film_height offset_x offset_y = Inr (0, 0)"
  using len z by (simp add: project_point_def MMatrix_def maya_call_def bind_err_simps Let_def)

text \<open>
  Claim C3, as the code has it. When the camera-space Z coordinate is smaller than 1e-6 in
  magnitude, \<open>get_projected_coords\<close> of a valid locator pair, with the camera read from the
  scene, raises the error for a point at the camera position (wrapped as a failed
  projection) and returns no coordinates; \<open>project_point\<close> of the utilities returns the pair
  (0, 0) there and raises nothing.
\<close>

theorem degenerate_projection:
  "(cmds_objExists api s cam \<and> is_valid api s p \<and> world_position api s p = (Inr world_pos, p')
      \<and> read_camera api s cam = Inr cd
      \<and> \<bar>fst (snd (snd (camera_space_point api world_pos cd)))\<bar> < 1 / 1000000
    \<longrightarrow> get_projected_coords api s p cam = (Inl (ProjectFailed (locator_name p) PointAtCamera), p'))
   \<and> (length camera_matrix = 16
      \<and> \<bar>fst (snd (snd (MPoint_times (fst point_3d, fst (snd point_3d), snd (snd point_3d), 1)
                (MMatrix_inverse api camera_matrix))))\<bar> < 1 / 1000000
    \<longrightarrow> project_point api point_3d camera_matrix focal film_width film_height offset_x offset_y = Inr (0, 0))"
  using get_projected_coords_degenerate [of api s cam p world_pos p' cd]
    project_point_degenerate [of camera_matrix point_3d api focal film_width film_height offset_x offset_y]
  by blast


text \<open>
  With the identity matrix as camera matrix the point (0, 0, 0) is at the camera:
  \<open>project_point\<close> returns the pair (0, 0), not an error.
\<close>

theorem degenerate_projection_counterexample:
  "\<bar>fst (snd (snd (MPoint_times (0, 0, 0, 1) (MMatrix_inverse example_maya identity_matrix))))\<bar> < 1 / 1000000
   \<and> project_point example_maya (0, 0, 0) identity_matrix 35 36 24 0 0 = Inr (0, 0)"
  by (simp add: project_point_def bind_err_def maya_call_def MMatrix_def identity_matrix_def
      MPoint_times_def example_maya_def Let_def)

lemma read_camera_example:
  "ex_cam_rotation sc = (0, 0, 0) \<Longrightarrow> ex_cam_attrs sc = ex_cam_attrs example_scene0 \<Longrightarrow>
   read_camera example_maya sc ''camera1'' =
     Inr \<lparr>camera_mmatrix = translation_matrix (ex_cam_translation sc), cam_focal_length = 35,
          h_aperture = 36, v_aperture = 24, h_offset = 0, v_offset = 0\<rparr>"
  by (simp add: read_camera_def example_maya_def example_scene0_def bind_err_def maya_call_def
      MMatrix_def translation_matrix_def)

theorem degenerate_projection_witness:
  "is_valid example_maya (example_scene0\<lparr>ex_locators := [(''at_camera'', (0, 0, 0))]\<rparr>)
      (new_LocatorPair ''at_camera'' (0, 0) None)
   \<and> get_projected_coords example_maya (example_scene0\<lparr>ex_locators := [(''at_camera'', (0, 0, 0))]\<rparr>)
        (new_LocatorPair ''at_camera'' (0, 0) None) ''camera1''
       = (Inl (ProjectFailed ''at_camera'' PointAtCamera), new_LocatorPair ''at_camera'' (0, 0) None)
   \<and> length identity_matrix = 16
   \<and> project_point example_maya (0, 0, 0) identity_matrix 35 36 24 0 0 = Inr (0, 0)"
proof -
  let ?sc = "example_scene0\<lparr>ex_locators := [(''at_camera'', (0, 0, 0))]\<rparr>"
  let ?p = "new_LocatorPair ''at_camera'' (0, 0) None"
  let ?cd = "\<lparr>camera_mmatrix = translation_matrix (ex_cam_translation ?sc), cam_focal_length = 35,
          h_aperture = 36, v_aperture = 24, h_offset = 0, v_offset = 0\<rparr>"
  have cam: "cmds_objExists example_maya ?sc ''camera1''"
    by (simp add: example_maya_def)
  have valid: "is_valid example_maya ?sc ?p"
    by (simp add: is_valid_def new_LocatorPair_def example_maya_def)
  have wp: "world_position example_maya ?sc ?p = (Inr (0, 0, 0), ?p)"
    by (simp add: world_position_def new_LocatorPair_def example_maya_def)
  have rc: "read_camera example_maya ?sc ''camera1'' = Inr ?cd"
    by (rule read_camera_example) (simp_all add: example_scene0_def)
  have z: "\<bar>fst (snd (snd (camera_space_point example_maya (0, 0, 0) ?cd)))\<bar> < 1 / 1000000"
    by (simp add: camera_space_point_def MPoint_times_def example_maya_def translation_matrix_def
        example_scene0_def)
  have len: "length identity_matrix = 16" by (simp add: identity_matrix_def)
  have z2: "\<bar>fst (snd (snd (MPoint_times (fst (0, 0, 0), fst (snd (0, 0, 0)), snd (snd (0, 0, 0)), 1)
                (MMatrix_inverse example_maya identity_matrix))))\<bar> < 1 / 1000000"
    by (simp add: MPoint_times_def example_maya_def identity_matrix_def)
  have name: "locator_name ?p = ''at_camera''" by (simp add: new_LocatorPair_def)
  from degenerate_projection [of example_maya ?sc "''camera1''" ?p "(0, 0, 0)" ?p ?cd identity_matrix
      "(0, 0, 0)" 35 36 24 0 0] cam valid wp rc z len z2
  have "get_projected_coords example_maya ?sc ?p ''camera1'' = (Inl (ProjectFailed (locator_name ?p) PointAtCamera), ?p)"
    and "project_point example_maya (0, 0, 0) identity_matrix 35 36 24 0 0 = Inr (0, 0)"
    by blast+
  then show ?thesis using valid len name by simp
qed

section \<open>Properties of a locator pair\<close>

lemma world_position_fields:
  "locator_name (snd (world_position api s p)) = locator_name p"
  "pixel_coords (snd (world_position api s p)) = pixel_coords p"
  "pair_id (snd (world_position api s p)) = pair_id p"
  by (simp_all add: world_position_def split: option.splits)

lemma get_projected_coords_fields:
  "locator_name (snd (get_projected_coords api s p cam)) = locator_name p"
  "pixel_coords (snd (get_projected_coords api s p cam)) = pixel_coords p"
  "pair_id (snd (get_projected_coords api s p cam)) = pair_id p"
proof -
  obtain r p' where wp: "world_position api s p = (r, p')" by (cases "world_position api s p")
  have p': "p' = snd (world_position api s p)" by (simp add: wp)
  show "locator_name (snd (get_projected_coords api s p cam)) = locator_name p"
    using world_position_fields(1) [of api s p]
    by (simp add: get_projected_coords_def wp p' [symmetric] split: sum.splits)
  show "pixel_coords (snd (get_projected_coords api s p cam)) = pixel_coords p"
    using world_position_fields(2) [of api s p]
    by (simp add: get_projected_coords_def wp p' [symmetric] split: sum.splits)
  show "pair_id (snd (get_projected_coords api s p cam)) = pair_id p"
    using world_position_fields(3) [of api s p]
    by (simp add: get_projected_coords_def wp p' [symmetric] split: sum.splits)
qed

lemma get_reprojection_error_failed:
  "fst (get_projected_coords api s p cam) = Inl e \<Longrightarrow>
   fst (get_reprojection_error api s p cam w h) = PosInf"
  by (cases "get_projected_coords api s p cam") (simp add: get_reprojection_error_def)

lemma get_reprojection_error_projected:
  assumes "fst (get_projected_coords api s p cam) = Inr ndc"
  shows "fst (get_reprojection_error api s p cam w h) =
     Finite (sqrt ((fst (ndc_to_pixel ndc w h) - fst (pixel_coords p)) ^ 2
                 + (snd (ndc_to_pixel ndc w h) - snd (pixel_coords p)) ^ 2))"
proof -
  obtain p' where g: "get_projected_coords api s p cam = (Inr ndc, p')"
    using assms by (cases "get_projected_coords api s p cam") simp
  have "pixel_coords p' = pixel_coords p"
    using get_projected_coords_fields(2) [of api s p cam] by (simp add: g)
  then show ?thesis
    by (simp add: get_reprojection_error_def g Let_def power2_eq_square)
qed

lemma get_projected_coords_invalid:
  "\<not> is_valid api s p \<Longrightarrow> \<exists>e. fst (get_projected_coords api s p cam) = Inl e"
  by (simp add: get_projected_coords_def)

lemma get_projected_coords_degenerate_any:
  assumes wp: "world_position api s p = (Inr world_pos, p')"
    and rc: "read_camera api s cam = Inr cd"
    and z: "\<bar>fst (snd (snd (camera_space_point api world_pos cd)))\<bar> < 1 / 1000000"
  shows "\<exists>e. fst (get_projected_coords api s p cam) = Inl e"
proof -
  have "project_to_ndc api world_pos cd = Inl PointAtCamera"
    using z by (simp add: project_to_ndc_def Let_def)
  then show ?thesis
    using wp rc by (simp add: get_projected_coords_def bind_err_simps)
qed

lemma get_projected_coords_regular:
  assumes cam: "cmds_objExists api s cam"
    and valid: "is_valid api s p"
    and wp: "world_position api s p = (Inr world_pos, p')"
    and rc: "read_camera api s cam = Inr cd"
    and z: "\<not> \<bar>fst (snd (snd (camera_space_point api world_pos cd)))\<bar> < 1 / 1000000"
    and ap: "h_aperture cd \<noteq> 0" "v_aperture cd \<noteq> 0"
  shows "fst (get_projected_coords api s p cam) =
     Inr ((- fst (camera_space_point api world_pos cd) / fst (snd (snd (camera_space_point api world_pos cd)))
             * cam_focal_length cd + h_offset cd) / (h_aperture cd * 0.5),
          (fst (snd (camera_space_point api world_pos cd)) / fst (snd (snd (camera_space_point api world_pos cd)))
             * cam_focal_length cd + v_offset cd) / (v_aperture cd * 0.5))"
proof -
  have "project_to_ndc api world_pos cd =
     Inr ((- fst (camera_space_point api world_pos cd) / fst (snd (snd (camera_space_point api world_pos cd)))
             * cam_focal_length cd + h_offset cd) / (h_aperture cd * 0.5),
          (fst (snd (camera_space_point api world_pos cd)) / fst (snd (snd (camera_space_point api world_pos cd)))
             * cam_focal_length cd + v_offset cd) / (v_aperture cd * 0.5))"
    using z ap by (simp add: project_to_ndc_def Let_def)
  then show ?thesis
    using cam valid wp rc by (simp add: get_projected_coords_def bind_err_simps)
qed

text \<open>
  Claim C6. \<open>get_reprojection_error\<close> always returns a number. It returns plus infinity
  when the pair is not valid, when the projection is degenerate (camera-space Z below 1e-6
  in magnitude) and whenever else the projection raises. For a valid pair, a camera that
  is read from the scene with non-zero film apertures, and a camera-space Z of at least
  1e-6 in magnitude, it returns the distance in pixels between the projected point and the
  stored pixel coordinates.
\<close>

theorem reprojection_error_spec:
  "(\<not> is_valid api s p \<longrightarrow> fst (get_reprojection_error api s p cam w h) = PosInf)
   \<and> (world_position api s p = (Inr world_pos, p') \<and> read_camera api s cam = Inr cd
        \<and> \<bar>fst (snd (snd (camera_space_point api world_pos cd)))\<bar> < 1 / 1000000
      \<longrightarrow> fst (get_reprojection_error api s p cam w h) = PosInf)
   \<and> (fst (get_projected_coords api s p cam) = Inl e
      \<longrightarrow> fst (get_reprojection_error api s p cam w h) = PosInf)
   \<and> (cmds_objExists api s cam \<and> is_valid api s p
        \<and> world_position api s p = (Inr world_pos, p') \<and> read_camera api s cam = Inr cd
        \<and> \<not> \<bar>fst (snd (snd (camera_space_point api world_pos cd)))\<bar> < 1 / 1000000
        \<and> h_aperture cd \<noteq> 0 \<and> v_aperture cd \<noteq> 0
      \<longrightarrow> (let csp = camera_space_point api world_pos cd;
               cx = fst csp; cy = fst (snd csp); cz = fst (snd (snd csp));
               x_ndc = (- cx / cz * cam_focal_length cd + h_offset cd) / (h_aperture cd * 0.5);
               y_ndc = (cy / cz * cam_focal_length cd + v_offset cd) / (v_aperture cd * 0.5);
               pixel_x = (x_ndc + 1) * 0.5 * real_of_int w;
               pixel_y = (1 - y_ndc) * 0.5 * real_of_int h
           in fst (get_reprojection_error api s p cam w h) =
                Finite (sqrt ((pixel_x - fst (pixel_coords p)) ^ 2 + (pixel_y - snd (pixel_coords p)) ^ 2))))"
proof (intro conjI impI)
  assume "\<not> is_valid api s p"
  then obtain e' where "fst (get_projected_coords api s p cam) = Inl e'"
    using get_projected_coords_invalid [of api s p cam] by blast
  then show "fst (get_reprojection_error api s p cam w h) = PosInf"
    by (rule get_reprojection_error_failed)
next
  assume "world_position api s p = (Inr world_pos, p') \<and> read_camera api s cam = Inr cd
        \<and> \<bar>fst (snd (snd (camera_space_point api world_pos cd)))\<bar> < 1 / 1000000"
  then obtain e' where "fst (get_projected_coords api s p cam) = Inl e'"
    using get_projected_coords_degenerate_any [of api s p world_pos p' cam cd] by blast
  then show "fst (get_reprojection_error api s p cam w h) = PosInf"
    by (rule get_reprojection_error_failed)
next
  assume "fst (get_projected_coords api s p cam) = Inl e"
  then show "fst (get_reprojection_error api s p cam w h) = PosInf"
    by (rule get_reprojection_error_failed)
next
  assume a: "cmds_objExists api s cam \<and> is_valid api s p
        \<and> world_position api s p = (Inr world_pos, p') \<and> read_camera api s cam = Inr cd
        \<and> \<not> \<bar>fst (snd (snd (camera_space_point api world_pos cd)))\<bar> < 1 / 1000000
        \<and> h_aperture cd \<noteq> 0 \<and> v_aperture cd \<noteq> 0"
  note g = get_projected_coords_regular [of api s cam p world_pos p' cd]
  from a g have "fst (get_projected_coords api s p cam) =
     Inr ((- fst (camera_space_point api world_pos cd) / fst (snd (snd (camera_space_point api world_pos cd)))
             * cam_focal_length cd + h_offset cd) / (h_aperture cd * 0.5),
          (fst (snd (camera_space_point api world_pos cd)) / fst (snd (snd (camera_space_point api world_pos cd)))
             * cam_focal_length cd + v_offset cd) / (v_aperture cd * 0.5))"
    by blast
  from get_reprojection_error_projected [OF this, of w h]
  show "let csp = camera_space_point api world_pos cd;
               cx = fst csp; cy = fst (snd csp); cz = fst (snd (snd csp));
               x_ndc = (- cx / cz * cam_focal_length cd + h_offset cd) / (h_aperture cd * 0.5);
               y_ndc = (cy / cz * cam_focal_length cd + v_offset cd) / (v_aperture cd * 0.5);
               pixel_x = (x_ndc + 1) * 0.5 * real_of_int w;
               pixel_y = (1 - y_ndc) * 0.5 * real_of_int h
           in fst (get_reprojection_error api s p cam w h) =
                Finite (sqrt ((pixel_x - fst (pixel_coords p)) ^ 2 + (pixel_y - snd (pixel_coords p)) ^ 2))"
    by (simp add: Let_def ndc_to_pixel_def)
qed


text \<open>
  In the example scene: a pair whose locator does not exist, a pair whose locator is at
  the camera, a camera that does not exist, and the pair of \<open>loc1\<close>, which projects to
  the pixel (960, 540), observed at (957, 544): distance 5.
\<close>

theorem reprojection_error_spec_witness:
  "\<not> is_valid example_maya example_scene0 (new_LocatorPair ''gone'' (0, 0) None)
   \<and> fst (get_reprojection_error example_maya example_scene0 (new_LocatorPair ''gone'' (0, 0) None)
            ''camera1'' 1920 1080) = PosInf
   \<and> fst (get_reprojection_error example_maya (example_scene0\<lparr>ex_locators := [(''at_camera'', (0, 0, 0))]\<rparr>)
            (new_LocatorPair ''at_camera'' (0, 0) None) ''camera1'' 1920 1080) = PosInf
   \<and> fst (get_projected_coords example_maya example_scene0 (new_LocatorPair ''loc1'' (957, 544) (Some 1))
            ''nocam'') = Inl (CameraMissing ''nocam'')
   \<and> fst (get_reprojection_error example_maya example_scene0 (new_LocatorPair ''loc1'' (957, 544) (Some 1))
            ''nocam'' 1920 1080) = PosInf
   \<and> is_valid example_maya example_scene0 (new_LocatorPair ''loc1'' (957, 544) (Some 1))
   \<and> fst (get_reprojection_error example_maya example_scene0 (new_LocatorPair ''loc1'' (957, 544) (Some 1))
            ''camera1'' 1920 1080) = Finite 5"
proof -
  let ?gone = "new_LocatorPair ''gone'' (0, 0) None"
  let ?sc = "example_scene0\<lparr>ex_locators := [(''at_camera'', (0, 0, 0))]\<rparr>"
  let ?at = "new_LocatorPair ''at_camera'' (0, 0) None"
  let ?p = "new_LocatorPair ''loc1'' (957, 544) (Some 1)"
  let ?cd = "\<lparr>camera_mmatrix = translation_matrix (0, 0, 0), cam_focal_length = 35,
          h_aperture = 36, v_aperture = 24, h_offset = 0, v_offset = 0\<rparr>"
  have inv: "\<not> is_valid example_maya example_scene0 ?gone"
    by (simp add: is_valid_def new_LocatorPair_def example_maya_def example_scene0_def)
  have c1: "fst (get_reprojection_error example_maya example_scene0 ?gone ''camera1'' 1920 1080) = PosInf"
    using reprojection_error_spec [of example_maya example_scene0 ?gone "''camera1''" 1920 1080] inv
    by blast
  have wp_at: "world_position example_maya ?sc ?at = (Inr (0, 0, 0), ?at)"
    by (simp add: world_position_def new_LocatorPair_def example_maya_def)
  have rc_at: "read_camera example_maya ?sc ''camera1'' = Inr ?cd"
    using read_camera_example [of ?sc] by (simp add: example_scene0_def)
  have z_at: "\<bar>fst (snd (snd (camera_space_point example_maya (0, 0, 0) ?cd)))\<bar> < 1 / 1000000"
    by (simp add: camera_space_point_def MPoint_times_def example_maya_def translation_matrix_def)
  have c2: "fst (get_reprojection_error example_maya ?sc ?at ''camera1'' 1920 1080) = PosInf"
    using reprojection_error_spec [of example_maya ?sc ?at "''camera1''" 1920 1080 "(0, 0, 0)" ?at ?cd]
      wp_at rc_at z_at by blast
  have nocam: "fst (get_projected_coords example_maya example_scene0 ?p ''nocam'') = Inl (CameraMissing ''nocam'')"
    by (simp add: get_projected_coords_def example_maya_def example_scene0_def)
  have c3: "fst (get_reprojection_error example_maya example_scene0 ?p ''nocam'' 1920 1080) = PosInf"
    using reprojection_error_spec [of example_maya example_scene0 ?p "''nocam''" 1920 1080 _ _ _
        "CameraMissing ''nocam''"] nocam by blast
  have cam: "cmds_objExists example_maya example_scene0 ''camera1''"
    by (simp add: example_maya_def)
  have valid: "is_valid example_maya example_scene0 ?p"
    by (simp add: is_valid_def new_LocatorPair_def example_maya_def example_scene0_def)
  have wp: "world_position example_maya example_scene0 ?p = (Inr (0, 0, - 10), ?p)"
    by (simp add: world_position_def new_LocatorPair_def example_maya_def example_scene0_def)
  have rc: "read_camera example_maya example_scene0 ''camera1'' = Inr ?cd"
    using read_camera_example [of example_scene0] by (simp add: example_scene0_def)
  have csp: "camera_space_point example_maya (0, 0, - 10) ?cd = (0, 0, - 10, 1)"
    by (simp add: camera_space_point_def MPoint_times_def example_maya_def translation_matrix_def)
  have z: "\<not> \<bar>fst (snd (snd (camera_space_point example_maya (0, 0, - 10) ?cd)))\<bar> < 1 / 1000000"
    by (simp add: csp)
  have ap: "h_aperture ?cd \<noteq> 0" "v_aperture ?cd \<noteq> 0" by simp_all
  have sq: "sqrt 25 = 5" by (rule real_sqrt_unique) simp_all
  have "let csp = camera_space_point example_maya (0, 0, - 10) ?cd;
               cx = fst csp; cy = fst (snd csp); cz = fst (snd (snd csp));
               x_ndc = (- cx / cz * cam_focal_length ?cd + h_offset ?cd) / (h_aperture ?cd * 0.5);
               y_ndc = (cy / cz * cam_focal_length ?cd + v_offset ?cd) / (v_aperture ?cd * 0.5);
               pixel_x = (x_ndc + 1) * 0.5 * real_of_int 1920;
               pixel_y = (1 - y_ndc) * 0.5 * real_of_int 1080
           in fst (get_reprojection_error example_maya example_scene0 ?p ''camera1'' 1920 1080) =
                Finite (sqrt ((pixel_x - fst (pixel_coords ?p)) ^ 2 + (pixel_y - snd (pixel_coords ?p)) ^ 2))"
    using reprojection_error_spec [of example_maya example_scene0 ?p "''camera1''" 1920 1080
        "(0, 0, - 10)" ?p ?cd] cam valid wp rc z ap by blast
  then have c4: "fst (get_reprojection_error example_maya example_scene0 ?p ''camera1'' 1920 1080) = Finite 5"
    by (simp add: csp Let_def new_LocatorPair_def sq)
  show ?thesis using inv c1 c2 nocam c3 valid c4 by blast
qed

lemma world_position_failed_flag:
  "fst (world_position api s p) = Inl e \<Longrightarrow> \<not> is_valid_flag (snd (world_position api s p))"
  by (simp add: world_position_def split: if_splits option.splits)

lemma world_position_keeps_invalid:
  "\<not> is_valid_flag p \<Longrightarrow> \<not> is_valid_flag (snd (world_position api s p))"
  by (simp add: world_position_def split: option.splits)

lemma get_projected_coords_keeps_invalid:
  "\<not> is_valid_flag p \<Longrightarrow> snd (get_projected_coords api s p cam) = p"
  by (simp add: get_projected_coords_def is_valid_def)

lemma get_reprojection_error_snd:
  "snd (get_reprojection_error api s p cam w h) = snd (get_projected_coords api s p cam)"
  by (cases "get_projected_coords api s p cam")
     (simp add: get_reprojection_error_def Let_def split: sum.splits)

lemma step_keeps_invalid:
  assumes "\<not> is_valid_flag (snd st)"
  shows "\<not> is_valid_flag (snd (step api st ev))"
proof -
  obtain s p where st: "st = (s, p)" by (cases st)
  have p: "\<not> is_valid_flag p" using assms st by simp
  show ?thesis
  proof (cases ev)
    case (SceneChange s')
    then show ?thesis using p st by simp
  next
    case ReadWorldPosition
    then show ?thesis using world_position_keeps_invalid [OF p, of api s] st by simp
  next
    case QueryIsValid
    then show ?thesis using p st by simp
  next
    case (UpdatePixelCoords c)
    then show ?thesis using p st by (simp add: update_pixel_coords_def)
  next
    case (UpdateLocatorPosition v)
    then show ?thesis using p st
      by (simp add: update_locator_position_def split: option.splits)
  next
    case DeleteLocator
    then show ?thesis using p st
      by (simp add: delete_locator_def split: option.splits)
  next
    case (GetProjectedCoords cam)
    then show ?thesis using p st get_projected_coords_keeps_invalid [OF p, of api s cam] by simp
  next
    case (GetReprojectionError cam w h)
    then show ?thesis using p st get_projected_coords_keeps_invalid [OF p, of api s cam]
      by (simp add: get_reprojection_error_snd)
  qed
qed

lemma run_events_keeps_invalid:
  "\<not> is_valid_flag (snd st) \<Longrightarrow> \<not> is_valid_flag (snd (run_events api st evs))"
  unfolding run_events_def
proof (induction evs arbitrary: st)
  case Nil
  then show ?case by simp
next
  case (Cons ev evs)
  from Cons.IH [OF step_keeps_invalid [OF Cons.prems]] show ?case by simp
qed

text \<open>
  Claim C1. Once reading the world position of a locator pair has failed, \<open>is_valid\<close> of
  that pair is false after every later sequence of method calls on the pair and of
  changes of the scene, in whatever scene it is asked: also in a scene where a locator of
  the same name exists again.
\<close>

theorem is_valid_latch:
  assumes "fst (world_position api s p) = Inl e"
  shows "\<not> is_valid api s' (snd (run_events api (s, snd (world_position api s p)) evs))"
proof -
  have "\<not> is_valid_flag (snd (s, snd (world_position api s p)))"
    using world_position_failed_flag [OF assms] by simp
  from run_events_keeps_invalid [OF this]
  show ?thesis by (simp add: is_valid_def)
qed

text \<open>
  The locator \<open>loc1\<close> is missing when its position is read and is back afterwards: a
  new pair on that name is valid, the old pair is not.
\<close>

theorem is_valid_latch_witness:
  "fst (world_position example_maya (example_scene0\<lparr>ex_locators := []\<rparr>)
          (new_LocatorPair ''loc1'' (960, 540) (Some 1))) = Inl (LocatorMissing ''loc1'')
   \<and> is_valid example_maya example_scene0 (new_LocatorPair ''loc1'' (960, 540) (Some 1))
   \<and> \<not> is_valid example_maya example_scene0
        (snd (run_events example_maya
                (example_scene0\<lparr>ex_locators := []\<rparr>,
                 snd (world_position example_maya (example_scene0\<lparr>ex_locators := []\<rparr>)
                        (new_LocatorPair ''loc1'' (960, 540) (Some 1))))
                [SceneChange example_scene0, QueryIsValid, ReadWorldPosition]))"
proof -
  let ?sc = "example_scene0\<lparr>ex_locators := []\<rparr>"
  let ?p = "new_LocatorPair ''loc1'' (960, 540) (Some 1)"
  have failed: "fst (world_position example_maya ?sc ?p) = Inl (LocatorMissing ''loc1'')"
    by (simp add: world_position_def new_LocatorPair_def example_maya_def)
  have fresh: "is_valid example_maya example_scene0 ?p"
    by (simp add: is_valid_def new_LocatorPair_def example_maya_def example_scene0_def)
  from is_valid_latch [OF failed, of example_scene0 "[SceneChange example_scene0, QueryIsValid, ReadWorldPosition]"]
    failed fresh show ?thesis by simp
qed

text \<open>
  The flag is written by the methods that find the locator missing, not by \<open>is_valid\<close>
  itself: a pair whose locator is away only while \<open>is_valid\<close> is asked is valid again when
  the locator is back.
\<close>

lemma is_valid_query_sets_no_flag:
  "\<not> is_valid example_maya (example_scene0\<lparr>ex_locators := []\<rparr>) (new_LocatorPair ''loc1'' (960, 540) (Some 1))
   \<and> is_valid example_maya example_scene0
        (snd (run_events example_maya
                (example_scene0\<lparr>ex_locators := []\<rparr>, new_LocatorPair ''loc1'' (960, 540) (Some 1))
                [QueryIsValid, SceneChange example_scene0]))"
  by (simp add: run_events_def is_valid_def new_LocatorPair_def example_maya_def example_scene0_def)

section \<open>Properties of the optimizer\<close>

text \<open>
  Claim C4. With fewer than three valid locator pairs \<open>optimize\<close> raises one of its three
  setup errors, whatever the camera parameters, the method and the solver are, and leaves
  the optimizer as it was: the solver is not run, no parameter is written and the callback
  is not called. \<open>validate_setup\<close> reports an invalid setup, and \<open>optimize_camera\<close> of a
  matcher with this optimizer raises the setup error and changes neither the matcher nor
  the scene.
\<close>

theorem optimize_too_few_pairs:
  assumes "length (filter (is_valid api s) (locator_pairs opt)) < 3"
  shows "optimize sp api s opt method_arg =
           (Inl (if locator_pairs opt = [] then NoLocatorPairs
                 else if filter (is_valid api s) (locator_pairs opt) = [] then NoValidLocatorPairs
                 else TooFewValidPairs), opt)
         \<and> \<not> fst (validate_setup api s opt)
         \<and> (matcher_optimizer m = Some opt \<longrightarrow>
              optimize_camera sp api s m method_arg =
                (Inl (SetupInvalid (snd (validate_setup api s opt))), m, s))"
proof (intro conjI impI)
  show "optimize sp api s opt method_arg =
           (Inl (if locator_pairs opt = [] then NoLocatorPairs
                 else if filter (is_valid api s) (locator_pairs opt) = [] then NoValidLocatorPairs
                 else TooFewValidPairs), opt)"
    using assms by (simp add: optimize_def Let_def)
  show v: "\<not> fst (validate_setup api s opt)"
    using assms by (simp add: validate_setup_def)
  assume "matcher_optimizer m = Some opt"
  then show "optimize_camera sp api s m method_arg =
                (Inl (SetupInvalid (snd (validate_setup api s opt))), m, s)"
    using v by (cases "validate_setup api s opt") (simp add: optimize_camera_def)
qed

lemma example_pairs_valid:
  "filter (is_valid example_maya example_scene0) example_pairs = example_pairs"
  by (simp add: example_pairs_def is_valid_def new_LocatorPair_def example_maya_def example_scene0_def)

text \<open>The example optimizer with only the first two of its three locator pairs.\<close>

theorem optimize_too_few_pairs_witness:
  "length (filter (is_valid example_maya example_scene0)
            (locator_pairs (example_optimizer\<lparr>locator_pairs := take 2 example_pairs\<rparr>))) = 2
   \<and> optimize (example_scipy True) example_maya example_scene0
        (example_optimizer\<lparr>locator_pairs := take 2 example_pairs\<rparr>) (Some ''lm'')
       = (Inl TooFewValidPairs, example_optimizer\<lparr>locator_pairs := take 2 example_pairs\<rparr>)
   \<and> optimize_camera (example_scipy True) example_maya example_scene0
        \<lparr>matcher_camera_params = Some OptimizersObject,
         matcher_optimizer = Some (example_optimizer\<lparr>locator_pairs := take 2 example_pairs\<rparr>),
         matcher_image_path = None, matcher_image_width = 1920, matcher_image_height = 1080,
         next_pair_id = 4\<rparr> None
       = (Inl (SetupInvalid ''At least 3 valid locator pairs required''),
          \<lparr>matcher_camera_params = Some OptimizersObject,
           matcher_optimizer = Some (example_optimizer\<lparr>locator_pairs := take 2 example_pairs\<rparr>),
           matcher_image_path = None, matcher_image_width = 1920, matcher_image_height = 1080,
           next_pair_id = 4\<rparr>, example_scene0)"
proof -
  let ?opt = "example_optimizer\<lparr>locator_pairs := take 2 example_pairs\<rparr>"
  let ?m = "\<lparr>matcher_camera_params = Some OptimizersObject,
         matcher_optimizer = Some ?opt,
         matcher_image_path = None, matcher_image_width = 1920, matcher_image_height = 1080,
         next_pair_id = 4\<rparr>"
  have pairs: "filter (is_valid example_maya example_scene0) (locator_pairs ?opt) = take 2 example_pairs"
    by (simp add: example_pairs_def is_valid_def new_LocatorPair_def example_maya_def example_scene0_def)
  have len: "length (filter (is_valid example_maya example_scene0) (locator_pairs ?opt)) = 2"
    unfolding pairs by (simp add: example_pairs_def)
  then have lt: "length (filter (is_valid example_maya example_scene0) (locator_pairs ?opt)) < 3"
    by simp
  have ne: "take 2 example_pairs \<noteq> []" by (simp add: example_pairs_def)
  have msg: "snd (validate_setup example_maya example_scene0 ?opt) = ''At least 3 valid locator pairs required''"
    using lt ne by (simp add: validate_setup_def)
  note T = optimize_too_few_pairs [OF lt, of "example_scipy True" "Some ''lm''" ?m]
  have o1: "optimize (example_scipy True) example_maya example_scene0 ?opt (Some ''lm'') = (Inl TooFewValidPairs, ?opt)"
    using T pairs ne by simp
  note T2 = optimize_too_few_pairs [OF lt, of "example_scipy True" None ?m]
  have o2: "optimize_camera (example_scipy True) example_maya example_scene0 ?m None
       = (Inl (SetupInvalid ''At least 3 valid locator pairs required''), ?m, example_scene0)"
    using T2 msg by simp
  show ?thesis using len o1 o2 by blast
qed

section \<open>The functions on the example scene\<close>

lemma example_initial_vector:
  "get_parameter_vector example_params = Inr [0, 0, 0, 0, 0, 0, 35, 0, 0]"
  by (simp add: get_parameter_vector_def param_names_def is_parameter_locked_def get_parameter_value_def
      example_params_def new_CameraParameters_def initial_constraints_def initial_heap_def
      new_ParameterConstraints_def)

lemma example_unlocked: "get_unlocked_parameter_names example_params = param_names"
  by (simp add: get_unlocked_parameter_names_def is_parameter_locked_def example_params_def
      new_CameraParameters_def initial_constraints_def initial_heap_def new_ParameterConstraints_def
      param_names_def)

lemma example_read_camera:
  "read_camera example_maya example_scene0 ''camera1'' =
     Inr \<lparr>camera_mmatrix = translation_matrix (0, 0, 0), cam_focal_length = 35,
          h_aperture = 36, v_aperture = 24, h_offset = 0, v_offset = 0\<rparr>"
  using read_camera_example [of example_scene0] by (simp add: example_scene0_def)

lemma example_camera_exists: "cmds_objExists example_maya sc ''camera1''"
  by (simp add: example_maya_def)

lemma example_is_valid:
  "is_valid example_maya sc (new_LocatorPair n c i) = (n = ''camera1'' \<or> n = ''cameraShape1'' \<or> map_of (ex_locators sc) n \<noteq> None)"
  by (simp add: is_valid_def new_LocatorPair_def example_maya_def)

lemma example_world_position:
  "map_of (ex_locators sc) n = Some pos \<Longrightarrow> n \<noteq> ''camera1'' \<Longrightarrow>
   world_position example_maya sc (new_LocatorPair n c i) = (Inr pos, new_LocatorPair n c i)"
  by (cases pos) (simp add: world_position_def new_LocatorPair_def example_maya_def)

lemma example_project_to_ndc:
  "\<not> \<bar>z\<bar> < 1 / 1000000 \<Longrightarrow>
   project_to_ndc example_maya (x, y, z)
     \<lparr>camera_mmatrix = translation_matrix (0, 0, 0), cam_focal_length = 35,
      h_aperture = 36, v_aperture = 24, h_offset = 0, v_offset = 0\<rparr>
   = Inr ((- x / z * 35) / 18, (y / z * 35) / 12)"
  by (simp add: project_to_ndc_def camera_space_point_def MPoint_times_def translation_matrix_def
      example_maya_def Let_def)

lemma example_get_projected_coords:
  assumes "map_of (ex_locators example_scene0) n = Some (x, y, z)" "n \<noteq> ''camera1''"
    and "\<not> \<bar>z\<bar> < 1 / 1000000"
  shows "get_projected_coords example_maya example_scene0 (new_LocatorPair n c i) ''camera1''
     = (Inr ((- x / z * 35) / 18, (y / z * 35) / 12), new_LocatorPair n c i)"
proof -
  have v: "is_valid example_maya example_scene0 (new_LocatorPair n c i)"
    using assms(1) by (simp add: example_is_valid)
  show ?thesis
    unfolding get_projected_coords_def
    by (simp add: example_camera_exists v example_world_position [OF assms(1,2)] example_read_camera
        bind_err_simps example_project_to_ndc [OF assms(3)])
qed

lemma example_projected:
  "get_projected_coords example_maya example_scene0 (new_LocatorPair ''loc1'' c i) ''camera1''
     = (Inr (0, 0), new_LocatorPair ''loc1'' c i)"
  "get_projected_coords example_maya example_scene0 (new_LocatorPair ''loc2'' c i) ''camera1''
     = (Inr (7 / 36, 0), new_LocatorPair ''loc2'' c i)"
  "get_projected_coords example_maya example_scene0 (new_LocatorPair ''loc3'' c i) ''camera1''
     = (Inr (0, - 7 / 24), new_LocatorPair ''loc3'' c i)"
proof -
  show "get_projected_coords example_maya example_scene0 (new_LocatorPair ''loc1'' c i) ''camera1''
     = (Inr (0, 0), new_LocatorPair ''loc1'' c i)"
    using example_get_projected_coords [of "''loc1''" 0 0 "- 10" c i] by (simp add: example_scene0_def)
  show "get_projected_coords example_maya example_scene0 (new_LocatorPair ''loc2'' c i) ''camera1''
     = (Inr (7 / 36, 0), new_LocatorPair ''loc2'' c i)"
    using example_get_projected_coords [of "''loc2''" 1 0 "- 10" c i] by (simp add: example_scene0_def)
  show "get_projected_coords example_maya example_scene0 (new_LocatorPair ''loc3'' c i) ''camera1''
     = (Inr (0, - 7 / 24), new_LocatorPair ''loc3'' c i)"
    using example_get_projected_coords [of "''loc3''" 0 1 "- 10" c i] by (simp add: example_scene0_def)
qed

lemma example_pairs_are_valid:
  "is_valid example_maya example_scene0 (new_LocatorPair ''loc1'' c i)"
  "is_valid example_maya example_scene0 (new_LocatorPair ''loc2'' c i)"
  "is_valid example_maya example_scene0 (new_LocatorPair ''loc3'' c i)"
  by (simp_all add: example_is_valid example_scene0_def)

lemma example_residuals:
  "residuals_loop example_maya example_scene0 ''camera1'' 1920 1080 example_pairs
     = ([0, 0, 140 / 3, 0, 0, 595 / 2], example_pairs)"
  by (simp add: example_pairs_def example_pairs_are_valid example_projected ndc_to_pixel_def Let_def)
     (simp add: new_LocatorPair_def)


lemma set_parameter_value_names:
  "set_parameter_value cp ''translate_x'' v =
     (None, cp\<lparr>translation := (clamp_value (get_constraints cp ''translate_x'') v, fst (snd (translation cp)), snd (snd (translation cp)))\<rparr>)"
  "set_parameter_value cp ''translate_y'' v =
     (None, cp\<lparr>translation := (fst (translation cp), clamp_value (get_constraints cp ''translate_y'') v, snd (snd (translation cp)))\<rparr>)"
  "set_parameter_value cp ''translate_z'' v =
     (None, cp\<lparr>translation := (fst (translation cp), fst (snd (translation cp)), clamp_value (get_constraints cp ''translate_z'') v)\<rparr>)"
  "set_parameter_value cp ''rotate_x'' v =
     (None, cp\<lparr>rotation := (clamp_value (get_constraints cp ''rotate_x'') v, fst (snd (rotation cp)), snd (snd (rotation cp)))\<rparr>)"
  "set_parameter_value cp ''rotate_y'' v =
     (None, cp\<lparr>rotation := (fst (rotation cp), clamp_value (get_constraints cp ''rotate_y'') v, snd (snd (rotation cp)))\<rparr>)"
  "set_parameter_value cp ''rotate_z'' v =
     (None, cp\<lparr>rotation := (fst (rotation cp), fst (snd (rotation cp)), clamp_value (get_constraints cp ''rotate_z'') v)\<rparr>)"
  "set_parameter_value cp ''focal_length'' v =
     (None, cp\<lparr>focal_length := clamp_value (get_constraints cp ''focal_length'') v\<rparr>)"
  "set_parameter_value cp ''film_offset_x'' v =
     (None, cp\<lparr>film_offset_x := clamp_value (get_constraints cp ''film_offset_x'') v\<rparr>)"
  "set_parameter_value cp ''film_offset_y'' v =
     (None, cp\<lparr>film_offset_y := clamp_value (get_constraints cp ''film_offset_y'') v\<rparr>)"
  by (simp_all add: set_parameter_value_def get_constraints_def clamp_value_default Let_def
      split: option.splits)

lemma get_constraints_updates:
  "get_constraints (cp\<lparr>translation := t\<rparr>) n = get_constraints cp n"
  "get_constraints (cp\<lparr>rotation := t\<rparr>) n = get_constraints cp n"
  "get_constraints (cp\<lparr>focal_length := v\<rparr>) n = get_constraints cp n"
  "get_constraints (cp\<lparr>film_offset_x := v\<rparr>) n = get_constraints cp n"
  "get_constraints (cp\<lparr>film_offset_y := v\<rparr>) n = get_constraints cp n"
  by (simp_all add: get_constraints_def split: option.splits)

lemma example_constraints:
  "clamp_value (get_constraints example_params ''translate_x'') v = v"
  "clamp_value (get_constraints example_params ''translate_y'') v = v"
  "clamp_value (get_constraints example_params ''translate_z'') v = v"
  "clamp_value (get_constraints example_params ''rotate_x'') v = v"
  "clamp_value (get_constraints example_params ''rotate_y'') v = v"
  "clamp_value (get_constraints example_params ''rotate_z'') v = v"
  "clamp_value (get_constraints example_params ''focal_length'') v = min (max v 1) 1000"
  "clamp_value (get_constraints example_params ''film_offset_x'') v = min (max v (- 50)) 50"
  "clamp_value (get_constraints example_params ''film_offset_y'') v = min (max v (- 50)) 50"
  by (simp_all add: get_constraints_def example_params_def new_CameraParameters_def
      initial_constraints_def initial_heap_def new_ParameterConstraints_def clamp_value_def)

lemma example_write_values:
  "write_values example_params param_names [a, b, c, d, e, f, g, h, i] =
     (None, example_params\<lparr>translation := (a, b, c), rotation := (d, e, f),
        focal_length := min (max g 1) 1000,
        film_offset_x := min (max h (- 50)) 50, film_offset_y := min (max i (- 50)) 50\<rparr>)"
  by (simp add: param_names_def set_parameter_value_names get_constraints_updates example_constraints)


lemma example_set_vector:
  "set_parameter_vector example_params [a, b, c, d, e, f, g, h, i] =
     (None, example_params\<lparr>translation := (a, b, c), rotation := (d, e, f),
        focal_length := min (max g 1) 1000,
        film_offset_x := min (max h (- 50)) 50, film_offset_y := min (max i (- 50)) 50\<rparr>)"
proof -
  have "filter (\<lambda>name. \<not> is_parameter_locked example_params name) param_names = param_names"
    using example_unlocked by (simp add: get_unlocked_parameter_names_def)
  moreover have "length param_names = 9" by (simp add: param_names_def)
  ultimately show ?thesis
    by (simp add: set_parameter_vector_def Let_def example_write_values)
qed

lemma example_params_same:
  "example_params\<lparr>translation := (0, 0, 0), rotation := (0, 0, 0), focal_length := 35,
        film_offset_x := 0, film_offset_y := 0\<rparr> = example_params"
  by (simp add: example_params_def new_CameraParameters_def)

lemma example_set_initial:
  "set_parameter_vector example_params [0, 0, 0, 0, 0, 0, 35, 0, 0] = (None, example_params)"
  by (simp add: example_set_vector example_params_same)

lemma example_camera_transform: "camera_transform example_params = ''camera1''"
  by (simp add: camera_transform_def example_params_def new_CameraParameters_def)

lemma example_objective:
  assumes "camera_params opt = example_params" "locator_pairs opt = example_pairs"
    "image_width opt = 1920" "image_height opt = 1080"
  shows "objective_function example_maya example_scene0 opt [0, 0, 0, 0, 0, 0, 35, 0, 0]
           = (Inr [0, 0, 140 / 3, 0, 0, 595 / 2],
              opt\<lparr>camera_params := example_params, locator_pairs := example_pairs\<rparr>)"
  using assms
  by (simp add: objective_function_def example_set_initial example_camera_transform example_residuals)

lemma example_cost: "sum_of_squares [0, 0, 140 / 3, 0, 0, 595 / 2] = 3264625 / 36"
  by (simp add: sum_of_squares_def power2_eq_square)

lemma example_preconditions:
  assumes "camera_params opt = example_params" "locator_pairs opt = example_pairs"
  shows "locator_pairs opt \<noteq> []"
    "filter (is_valid example_maya example_scene0) (locator_pairs opt) = example_pairs"
    "length example_pairs = 3" "example_pairs \<noteq> []"
    "get_parameter_vector (camera_params opt) = Inr [0, 0, 0, 0, 0, 0, 35, 0, 0]"
  using assms
  by (simp_all add: example_initial_vector)
     (simp_all add: example_pairs_def example_pairs_are_valid)

lemma example_optimize_lm:
  assumes "camera_params opt = example_params" "locator_pairs opt = example_pairs"
    "image_width opt = 1920" "image_height opt = 1080"
  shows "optimize (example_scipy ok) example_maya example_scene0 opt (Some ''lm'') =
           (Inr (ok, 3264625 / 36, 1),
            opt\<lparr>iteration_count := 0, camera_params := example_params, locator_pairs := example_pairs,
                camera_params := example_params\<lparr>translation := (1, 1, 1), rotation := (1, 1, 1),
                   focal_length := 36, film_offset_x := 1, film_offset_y := 1\<rparr>\<rparr>)"
proof -
  let ?opt0 = "opt\<lparr>iteration_count := 0\<rparr>"
  have obj: "objective_function example_maya example_scene0 ?opt0 [0, 0, 0, 0, 0, 0, 35, 0, 0]
           = (Inr [0, 0, 140 / 3, 0, 0, 595 / 2],
              ?opt0\<lparr>camera_params := example_params, locator_pairs := example_pairs\<rparr>)"
    by (rule example_objective) (simp_all add: assms)
  have run: "run_method (example_scipy ok) example_maya example_scene0 ?opt0 [0, 0, 0, 0, 0, 0, 35, 0, 0] ''lm''
     = (Inr (ok, [1, 1, 1, 1, 1, 1, 36, 1, 1], 3264625 / 36, 1),
        ?opt0\<lparr>camera_params := example_params, locator_pairs := example_pairs\<rparr>)"
    by (simp add: run_method_def example_scipy_def one_call_def obj example_cost Let_def)
  have app: "apply_result (?opt0\<lparr>camera_params := example_params, locator_pairs := example_pairs\<rparr>)
          ok [1, 1, 1, 1, 1, 1, 36, 1, 1] (3264625 / 36) 1
       = (Inr (ok, 3264625 / 36, 1),
          opt\<lparr>iteration_count := 0, camera_params := example_params, locator_pairs := example_pairs,
                camera_params := example_params\<lparr>translation := (1, 1, 1), rotation := (1, 1, 1),
                   focal_length := 36, film_offset_x := 1, film_offset_y := 1\<rparr>\<rparr>)"
    by (simp add: apply_result_def example_set_vector)
  have "optimize (example_scipy ok) example_maya example_scene0 opt (Some ''lm'') =
      apply_result (?opt0\<lparr>camera_params := example_params, locator_pairs := example_pairs\<rparr>)
          ok [1, 1, 1, 1, 1, 1, 36, 1, 1] (3264625 / 36) 1"
    using example_preconditions [OF assms(1,2)]
    by (simp add: optimize_def Let_def chosen_method_def run)
  then show ?thesis by (simp only: app)
qed

section \<open>The result of an optimization\<close>

lemma apply_result_Inr:
  assumes "apply_result opt1 ok final_params fe its = (Inr res, opt')"
  shows "res = (ok, fe, its)
         \<and> set_parameter_vector (camera_params opt1) final_params = (None, camera_params opt')
         \<and> opt' = opt1\<lparr>camera_params := camera_params opt'\<rparr>"
proof -
  obtain e cp' where sv: "set_parameter_vector (camera_params opt1) final_params = (e, cp')"
    by (cases "set_parameter_vector (camera_params opt1) final_params")
  show ?thesis
  proof (cases e)
    case None
    then show ?thesis using assms sv by (auto simp: apply_result_def)
  next
    case (Some err)
    then show ?thesis using assms sv by (simp add: apply_result_def)
  qed
qed

lemma optimize_Inr:
  assumes "optimize sp api s opt method_arg = (Inr res, opt')"
  shows "\<exists>initial_params final_params opt1.
           get_parameter_vector (camera_params opt) = Inr initial_params
         \<and> run_method sp api s (opt\<lparr>iteration_count := 0\<rparr>) initial_params (chosen_method opt method_arg)
             = (Inr (fst res, final_params, snd res), opt1)
         \<and> apply_result opt1 (fst res) final_params (fst (snd res)) (snd (snd res)) = (Inr res, opt')"
proof -
  from assms obtain initial_params where init: "get_parameter_vector (camera_params opt) = Inr initial_params"
    by (cases "get_parameter_vector (camera_params opt)")
       (simp_all add: optimize_def Let_def split: if_splits)
  have cm: "chosen_method (opt\<lparr>iteration_count := 0\<rparr>) method_arg = chosen_method opt method_arg"
    by (simp add: chosen_method_def split: option.splits)
  obtain r opt1 where run: "run_method sp api s (opt\<lparr>iteration_count := 0\<rparr>) initial_params
       (chosen_method opt method_arg) = (r, opt1)"
    by (cases "run_method sp api s (opt\<lparr>iteration_count := 0\<rparr>) initial_params (chosen_method opt method_arg)")
  from assms init run cm have body:
    "(case r of Inl e \<Rightarrow> (Inl (OptimizationFailed e), opt1)
       | Inr (ok, final_params, final_error, iterations) \<Rightarrow>
           apply_result opt1 ok final_params final_error iterations) = (Inr res, opt')"
    by (simp add: optimize_def Let_def split: if_splits)
  then obtain ok final_params final_error iterations
    where r: "r = Inr (ok, final_params, final_error, iterations)"
    by (cases r) auto
  from body r have app: "apply_result opt1 ok final_params final_error iterations = (Inr res, opt')"
    by simp
  from apply_result_Inr [OF app] have res: "res = (ok, final_error, iterations)" by blast
  show ?thesis
    using init run r app res by auto
qed

text \<open>
  Claim C7. When \<open>optimize\<close> returns with the success flag false, the solver has returned
  a final point without raising, and the camera parameters the optimizer holds are those
  the solver run left with that final point written into them by \<open>set_parameter_vector\<close>:
  each unlocked parameter holds its coordinate of the final point, clamped by its
  constraints. Nothing is restored.
\<close>

theorem optimize_not_converged:
  assumes "optimize sp api s opt method_arg = (Inr (False, final_error, iterations), opt')"
  shows "\<exists>initial_params final_params opt1.
           get_parameter_vector (camera_params opt) = Inr initial_params
         \<and> run_method sp api s (opt\<lparr>iteration_count := 0\<rparr>) initial_params (chosen_method opt method_arg)
             = (Inr (False, final_params, final_error, iterations), opt1)
         \<and> set_parameter_vector (camera_params opt1) final_params = (None, camera_params opt')
         \<and> opt' = opt1\<lparr>camera_params := camera_params opt'\<rparr>
         \<and> length final_params = length (get_unlocked_parameter_names (camera_params opt1))
         \<and> (\<forall>i < length final_params.
               get_parameter_value (camera_params opt') (get_unlocked_parameter_names (camera_params opt1) ! i)
                 = Inr (clamp_value (get_constraints (camera_params opt1)
                                       (get_unlocked_parameter_names (camera_params opt1) ! i))
                                    (final_params ! i)))"
proof -
  from optimize_Inr [OF assms] obtain initial_params final_params opt1 where
    init: "get_parameter_vector (camera_params opt) = Inr initial_params"
    and run: "run_method sp api s (opt\<lparr>iteration_count := 0\<rparr>) initial_params (chosen_method opt method_arg)
             = (Inr (False, final_params, final_error, iterations), opt1)"
    and app: "apply_result opt1 False final_params final_error iterations
             = (Inr (False, final_error, iterations), opt')"
    by auto
  from apply_result_Inr [OF app] have
    sv: "set_parameter_vector (camera_params opt1) final_params = (None, camera_params opt')"
    and opt': "opt' = opt1\<lparr>camera_params := camera_params opt'\<rparr>"
    by blast+
  let ?cp = "camera_params opt1"
  have len: "length final_params = length (get_unlocked_parameter_names ?cp)"
  proof (rule ccontr)
    assume "length final_params \<noteq> length (get_unlocked_parameter_names ?cp)"
    then have "fst (set_parameter_vector ?cp final_params) \<noteq> None"
      by (simp add: set_parameter_vector_def get_unlocked_parameter_names_def Let_def)
    then show False using sv by simp
  qed
  have eq: "set_parameter_vector ?cp final_params = write_values ?cp (get_unlocked_parameter_names ?cp) final_params"
    using len by (simp add: set_parameter_vector_def get_unlocked_parameter_names_def Let_def)
  note W = write_values_spec [OF unlocked_names_props len, of ?cp]
  have cp': "camera_params opt' = snd (write_values ?cp (get_unlocked_parameter_names ?cp) final_params)"
    using sv eq by simp
  have vals: "\<forall>i < length final_params.
               get_parameter_value (camera_params opt') (get_unlocked_parameter_names ?cp ! i)
                 = Inr (clamp_value (get_constraints ?cp (get_unlocked_parameter_names ?cp ! i))
                                    (final_params ! i))"
    unfolding cp' len using W by blast
  show ?thesis using init run sv opt' len vals by blast
qed


lemma example_run_lm:
  assumes "camera_params opt = example_params" "locator_pairs opt = example_pairs"
    "image_width opt = 1920" "image_height opt = 1080"
  shows "run_method (example_scipy ok) example_maya example_scene0 opt [0, 0, 0, 0, 0, 0, 35, 0, 0] ''lm''
     = (Inr (ok, [1, 1, 1, 1, 1, 1, 36, 1, 1], 3264625 / 36, 1),
        opt\<lparr>camera_params := example_params, locator_pairs := example_pairs\<rparr>)"
  by (simp add: run_method_def example_scipy_def one_call_def example_objective [OF assms]
      example_cost Let_def)

lemma example_optimizer_fields:
  "camera_params example_optimizer = example_params"
  "locator_pairs example_optimizer = example_pairs"
  "image_width example_optimizer = 1920"
  "image_height example_optimizer = 1080"
  "default_method example_optimizer = ''lm''"
  "callback_calls example_optimizer = []"
  "iteration_count example_optimizer = 0"
  by (simp_all add: example_optimizer_def new_CameraOptimizer_def)

text \<open>
  The example solver returns the initial point moved by one without success: the focal
  length, 35 before, is 36 afterwards.
\<close>

theorem optimize_not_converged_witness:
  "fst (optimize (example_scipy False) example_maya example_scene0 example_optimizer (Some ''lm''))
     = Inr (False, 3264625 / 36, 1)
   \<and> get_parameter_value (camera_params example_optimizer) ''focal_length'' = Inr 35
   \<and> get_parameter_value
        (camera_params (snd (optimize (example_scipy False) example_maya example_scene0
                               example_optimizer (Some ''lm''))))
        ''focal_length'' = Inr 36"
proof -
  let ?run = "optimize (example_scipy False) example_maya example_scene0 example_optimizer (Some ''lm'')"
  have ev: "?run = (Inr (False, 3264625 / 36, 1),
            example_optimizer\<lparr>iteration_count := 0, camera_params := example_params,
                locator_pairs := example_pairs,
                camera_params := example_params\<lparr>translation := (1, 1, 1), rotation := (1, 1, 1),
                   focal_length := 36, film_offset_x := 1, film_offset_y := 1\<rparr>\<rparr>)"
    by (rule example_optimize_lm) (simp_all add: example_optimizer_fields)
  then have h: "?run = (Inr (False, 3264625 / 36, 1), snd ?run)" by simp
  from optimize_not_converged [OF h] obtain initial_params final_params opt1 where
    init: "get_parameter_vector (camera_params example_optimizer) = Inr initial_params"
    and run: "run_method (example_scipy False) example_maya example_scene0
                (example_optimizer\<lparr>iteration_count := 0\<rparr>) initial_params
                (chosen_method example_optimizer (Some ''lm''))
             = (Inr (False, final_params, 3264625 / 36, 1), opt1)"
    and vals: "\<forall>i < length final_params.
               get_parameter_value (camera_params (snd ?run)) (get_unlocked_parameter_names (camera_params opt1) ! i)
                 = Inr (clamp_value (get_constraints (camera_params opt1)
                                       (get_unlocked_parameter_names (camera_params opt1) ! i))
                                    (final_params ! i))"
    by blast
  have init0: "initial_params = [0, 0, 0, 0, 0, 0, 35, 0, 0]"
    using init by (simp add: example_optimizer_fields example_initial_vector)
  have cm: "chosen_method example_optimizer (Some ''lm'') = ''lm''"
    by (simp add: chosen_method_def)
  have run0: "run_method (example_scipy False) example_maya example_scene0
                (example_optimizer\<lparr>iteration_count := 0\<rparr>) [0, 0, 0, 0, 0, 0, 35, 0, 0] ''lm''
     = (Inr (False, [1, 1, 1, 1, 1, 1, 36, 1, 1], 3264625 / 36, 1),
        example_optimizer\<lparr>iteration_count := 0\<rparr>\<lparr>camera_params := example_params, locator_pairs := example_pairs\<rparr>)"
    by (rule example_run_lm) (simp_all add: example_optimizer_fields)
  from run run0 init0 cm have fin: "final_params = [1, 1, 1, 1, 1, 1, 36, 1, 1]"
    and o1: "camera_params opt1 = example_params"
    by auto
  from vals fin have "get_parameter_value (camera_params (snd ?run)) (get_unlocked_parameter_names (camera_params opt1) ! 6)
                 = Inr (clamp_value (get_constraints (camera_params opt1)
                                       (get_unlocked_parameter_names (camera_params opt1) ! 6))
                                    (final_params ! 6))"
    by simp
  then have after: "get_parameter_value (camera_params (snd ?run)) ''focal_length'' = Inr 36"
    unfolding o1 fin example_unlocked by (simp add: param_names_def example_constraints)
  have before: "get_parameter_value (camera_params example_optimizer) ''focal_length'' = Inr 35"
    by (simp add: example_optimizer_fields get_parameter_value_def example_params_def new_CameraParameters_def)
  have first: "fst ?run = Inr (False, 3264625 / 36, 1)" using ev by simp
  show ?thesis using first before after by blast
qed

section \<open>Writing the result to the scene\<close>

lemma optimize_camera_not_ok:
  assumes "matcher_optimizer m = Some opt" "fst (validate_setup api s opt)"
    and "optimize sp api s opt method_arg = (Inr (False, final_error, iterations), opt')"
  shows "optimize_camera sp api s m method_arg =
           (Inr (False, final_error, iterations), m\<lparr>matcher_optimizer := Some opt'\<rparr>, s)"
  using assms by (cases "validate_setup api s opt") (simp add: optimize_camera_def Let_def)

lemma optimize_camera_scene_changed:
  assumes "snd (snd (optimize_camera sp api s m method_arg)) \<noteq> s"
  shows "\<exists>opt opt' final_error iterations r.
           matcher_optimizer m = Some opt
         \<and> optimize sp api s opt method_arg = (Inr (True, final_error, iterations), opt')
         \<and> matcher_camera_params m = Some r
         \<and> snd (snd (optimize_camera sp api s m method_arg))
             = snd (apply_to_maya api s (case r of OptimizersObject \<Rightarrow> camera_params opt'
                                                 | OtherObject cp \<Rightarrow> cp))"
proof -
  from assms obtain opt where opt: "matcher_optimizer m = Some opt"
    by (cases "matcher_optimizer m") (simp_all add: optimize_camera_def)
  obtain is_ok msg where v: "validate_setup api s opt = (is_ok, msg)"
    by (cases "validate_setup api s opt")
  from assms opt v have ok: "is_ok" by (cases is_ok) (simp_all add: optimize_camera_def)
  obtain res opt' where o: "optimize sp api s opt method_arg = (res, opt')"
    by (cases "optimize sp api s opt method_arg")
  from assms opt v ok o obtain success final_error iterations
    where res: "res = Inr (success, final_error, iterations)"
    by (cases res) (auto simp: optimize_camera_def)
  from assms opt v ok o res have succ: "success"
    by (cases success) (simp_all add: optimize_camera_def Let_def)
  from assms opt v ok o res succ obtain r where r: "matcher_camera_params m = Some r"
    by (cases "matcher_camera_params m") (simp_all add: optimize_camera_def Let_def)
  have "snd (snd (optimize_camera sp api s m method_arg))
             = snd (apply_to_maya api s (case r of OptimizersObject \<Rightarrow> camera_params opt'
                                                 | OtherObject cp \<Rightarrow> cp))"
    using opt v ok o res succ r
    by (simp add: optimize_camera_def Let_def split: prod.splits option.splits)
  then show ?thesis using opt o res succ r
    by (intro exI [of _ opt] exI [of _ opt'] exI [of _ final_error] exI [of _ iterations] exI [of _ r]) simp
qed

text \<open>
  Claim C10. When the optimizer returns without success, \<open>optimize_camera\<close> returns that
  result and leaves the scene as it was, while the matcher's optimizer holds the camera
  parameters with the solver's final point written into them. Whenever \<open>optimize_camera\<close>
  leaves a changed scene, the optimizer has reported success and the scene is the one
  \<open>apply_to_maya\<close> makes from the matcher's camera parameters.
\<close>

theorem optimize_camera_applies_on_success_only:
  "(matcher_optimizer m = Some opt \<and> fst (validate_setup api s opt)
      \<and> optimize sp api s opt method_arg = (Inr (False, final_error, iterations), opt')
    \<longrightarrow> optimize_camera sp api s m method_arg =
           (Inr (False, final_error, iterations), m\<lparr>matcher_optimizer := Some opt'\<rparr>, s)
        \<and> (\<exists>initial_params final_params opt1.
              get_parameter_vector (camera_params opt) = Inr initial_params
            \<and> run_method sp api s (opt\<lparr>iteration_count := 0\<rparr>) initial_params
                  (chosen_method opt method_arg)
                = (Inr (False, final_params, final_error, iterations), opt1)
            \<and> set_parameter_vector (camera_params opt1) final_params = (None, camera_params opt')))
   \<and> (snd (snd (optimize_camera sp api s m method_arg)) \<noteq> s
    \<longrightarrow> (\<exists>opt opt' final_error iterations r.
           matcher_optimizer m = Some opt
         \<and> optimize sp api s opt method_arg = (Inr (True, final_error, iterations), opt')
         \<and> matcher_camera_params m = Some r
         \<and> snd (snd (optimize_camera sp api s m method_arg))
             = snd (apply_to_maya api s (case r of OptimizersObject \<Rightarrow> camera_params opt'
                                                 | OtherObject cp \<Rightarrow> cp))))"
proof (intro conjI impI)
  assume a: "matcher_optimizer m = Some opt \<and> fst (validate_setup api s opt)
      \<and> optimize sp api s opt method_arg = (Inr (False, final_error, iterations), opt')"
  then show "optimize_camera sp api s m method_arg =
           (Inr (False, final_error, iterations), m\<lparr>matcher_optimizer := Some opt'\<rparr>, s)"
    using optimize_camera_not_ok [of m opt api s sp method_arg final_error iterations opt'] by blast
  from a have o: "optimize sp api s opt method_arg = (Inr (False, final_error, iterations), opt')"
    by blast
  from optimize_Inr [OF o] obtain initial_params final_params opt1 where
    init: "get_parameter_vector (camera_params opt) = Inr initial_params"
    and run: "run_method sp api s (opt\<lparr>iteration_count := 0\<rparr>) initial_params
                  (chosen_method opt method_arg)
                = (Inr (False, final_params, final_error, iterations), opt1)"
    and app: "apply_result opt1 False final_params final_error iterations
       = (Inr (False, final_error, iterations), opt')"
    by auto
  from apply_result_Inr [OF app]
  have "set_parameter_vector (camera_params opt1) final_params = (None, camera_params opt')"
    by simp
  with init run show "\<exists>initial_params final_params opt1.
              get_parameter_vector (camera_params opt) = Inr initial_params
            \<and> run_method sp api s (opt\<lparr>iteration_count := 0\<rparr>) initial_params
                  (chosen_method opt method_arg)
                = (Inr (False, final_params, final_error, iterations), opt1)
            \<and> set_parameter_vector (camera_params opt1) final_params = (None, camera_params opt')"
    by (intro exI [of _ initial_params] exI [of _ final_params] exI [of _ opt1]) simp
next
  assume "snd (snd (optimize_camera sp api s m method_arg)) \<noteq> s"
  then show "\<exists>opt opt' final_error iterations r.
           matcher_optimizer m = Some opt
         \<and> optimize sp api s opt method_arg = (Inr (True, final_error, iterations), opt')
         \<and> matcher_camera_params m = Some r
         \<and> snd (snd (optimize_camera sp api s m method_arg))
             = snd (apply_to_maya api s (case r of OptimizersObject \<Rightarrow> camera_params opt'
                                                 | OtherObject cp \<Rightarrow> cp))"
    by (rule optimize_camera_scene_changed)
qed


lemma example_validate:
  assumes "camera_params opt = example_params" "locator_pairs opt = example_pairs"
    "image_width opt = 1920" "image_height opt = 1080"
  shows "validate_setup example_maya example_scene0 opt = (True, ''Setup is valid'')"
  using example_preconditions [OF assms(1,2)] assms example_unlocked
  by (simp add: validate_setup_def param_names_def)

lemma example_apply_to_maya:
  "apply_to_maya example_maya example_scene0
     (example_params\<lparr>translation := t, rotation := r, focal_length := f,
                     film_offset_x := ox, film_offset_y := oy\<rparr>)
   = (None, example_scene0\<lparr>ex_cam_translation := t, ex_cam_rotation := r,
        ex_cam_attrs := (''cameraShape1.verticalFilmOffset'', oy / 25.4)
                      # (''cameraShape1.horizontalFilmOffset'', ox / 25.4)
                      # (''cameraShape1.focalLength'', f) # ex_cam_attrs example_scene0\<rparr>)"
  by (simp add: apply_to_maya_def example_params_def new_CameraParameters_def example_maya_def
      example_scene0_def)

lemma example_optimize_camera_failed:
  "optimize_camera (example_scipy False) example_maya example_scene0 example_matcher (Some ''lm'')
     = (Inr (False, 3264625 / 36, 1),
        example_matcher\<lparr>matcher_optimizer := Some (snd (optimize (example_scipy False) example_maya
            example_scene0 example_optimizer (Some ''lm'')))\<rparr>,
        example_scene0)"
  by (simp add: optimize_camera_def example_matcher_def example_validate example_optimizer_fields
      example_optimize_lm)

lemma example_optimize_camera_ok:
  "snd (snd (optimize_camera (example_scipy True) example_maya example_scene0 example_matcher (Some ''lm'')))
     = example_scene0\<lparr>ex_cam_translation := (1, 1, 1), ex_cam_rotation := (1, 1, 1),
        ex_cam_attrs := (''cameraShape1.verticalFilmOffset'', 1 / 25.4)
                      # (''cameraShape1.horizontalFilmOffset'', 1 / 25.4)
                      # (''cameraShape1.focalLength'', 36) # ex_cam_attrs example_scene0\<rparr>"
  by (simp add: optimize_camera_def example_matcher_def example_validate example_optimizer_fields
      example_optimize_lm example_apply_to_maya)


text \<open>
  The example matcher and the example solver: without success the scene stays as it was;
  with success the scene is changed.
\<close>

theorem optimize_camera_applies_on_success_only_witness:
  "fst (validate_setup example_maya example_scene0 example_optimizer)
   \<and> fst (optimize (example_scipy False) example_maya example_scene0 example_optimizer (Some ''lm''))
       = Inr (False, 3264625 / 36, 1)
   \<and> fst (optimize_camera (example_scipy False) example_maya example_scene0 example_matcher (Some ''lm''))
       = Inr (False, 3264625 / 36, 1)
   \<and> snd (snd (optimize_camera (example_scipy False) example_maya example_scene0 example_matcher
                  (Some ''lm''))) = example_scene0
   \<and> snd (snd (optimize_camera (example_scipy True) example_maya example_scene0 example_matcher
                  (Some ''lm''))) \<noteq> example_scene0
   \<and> map_sum id fst (fst (optimize (example_scipy True) example_maya example_scene0 example_optimizer
                             (Some ''lm''))) = Inr True"
proof -
  let ?bad = "optimize (example_scipy False) example_maya example_scene0 example_optimizer (Some ''lm'')"
  let ?good = "optimize (example_scipy True) example_maya example_scene0 example_optimizer (Some ''lm'')"
  have mo: "matcher_optimizer example_matcher = Some example_optimizer"
    by (simp add: example_matcher_def)
  have v: "fst (validate_setup example_maya example_scene0 example_optimizer)"
    by (simp add: example_validate example_optimizer_fields)
  have f1: "fst ?bad = Inr (False, 3264625 / 36, 1)"
    by (simp add: example_optimize_lm example_optimizer_fields)
  then have b: "?bad = (Inr (False, 3264625 / 36, 1), snd ?bad)"
    by (cases ?bad) simp
  from optimize_camera_applies_on_success_only [of example_matcher example_optimizer example_maya
      example_scene0 "example_scipy False" "Some ''lm''" "3264625 / 36" 1 "snd ?bad"] mo v b
  have c1: "optimize_camera (example_scipy False) example_maya example_scene0 example_matcher (Some ''lm'')
      = (Inr (False, 3264625 / 36, 1), example_matcher\<lparr>matcher_optimizer := Some (snd ?bad)\<rparr>, example_scene0)"
    by blast
  have changed: "snd (snd (optimize_camera (example_scipy True) example_maya example_scene0 example_matcher
                  (Some ''lm''))) \<noteq> example_scene0"
    unfolding example_optimize_camera_ok by (simp add: example_scene0_def)
  from optimize_camera_applies_on_success_only [of example_matcher _ example_maya
      example_scene0 "example_scipy True" "Some ''lm''"] changed
  obtain opt opt' final_error iterations where
    "matcher_optimizer example_matcher = Some opt"
    "optimize (example_scipy True) example_maya example_scene0 opt (Some ''lm'')
       = (Inr (True, final_error, iterations), opt')"
    by blast
  with mo have c2: "map_sum id fst (fst ?good) = Inr True" by simp
  from c1 have c1a: "fst (optimize_camera (example_scipy False) example_maya example_scene0 example_matcher
      (Some ''lm'')) = Inr (False, 3264625 / 36, 1)"
    and c1b: "snd (snd (optimize_camera (example_scipy False) example_maya example_scene0 example_matcher
      (Some ''lm''))) = example_scene0"
    by simp_all
  show ?thesis using v f1 c1a c1b changed c2 by blast
qed

section \<open>The progress callback\<close>

lemma objective_function_silent:
  "callback_calls (snd (objective_function api s opt params)) = callback_calls opt"
  "iteration_count (snd (objective_function api s opt params)) = iteration_count opt"
  "progress_callback (snd (objective_function api s opt params)) = progress_callback opt"
  by (simp_all add: objective_function_def split: prod.splits option.splits)

lemma run_solver_objective_silent:
  "callback_calls (snd (run_solver (objective_function api s) sol opt)) = callback_calls opt
   \<and> iteration_count (snd (run_solver (objective_function api s) sol opt)) = iteration_count opt"
proof (induction sol arbitrary: opt)
  case (Return r)
  show ?case by simp
next
  case Raise
  show ?case by simp
next
  case (Call p k)
  obtain r opt1 where f: "objective_function api s opt p = (r, opt1)"
    by (cases "objective_function api s opt p")
  have o1: "callback_calls opt1 = callback_calls opt" "iteration_count opt1 = iteration_count opt"
    using objective_function_silent(1,2) [of api s opt p] by (simp_all add: f)
  show ?case
  proof (cases r)
    case (Inl e)
    then show ?thesis using f o1 by simp
  next
    case (Inr v)
    have "k v \<in> range k" by simp
    from Call.IH [OF this, of opt1] show ?thesis using f Inr o1 by simp
  qed
qed

lemma apply_result_callback:
  "callback_calls (snd (apply_result opt ok final_params fe its)) = callback_calls opt"
  "iteration_count (snd (apply_result opt ok final_params fe its)) = iteration_count opt"
  by (simp_all add: apply_result_def split: prod.splits option.splits)

text \<open>
  With one of the methods of \<open>least_squares\<close> no call of \<open>optimize\<close> ever calls the
  callback, and the iteration counter stays at the zero it is reset to, whatever the
  solver does.
\<close>

lemma least_squares_never_calls_back:
  assumes "chosen_method opt method_arg \<in> set [''lm'', ''trf'', ''dogbox'']"
  shows "callback_calls (snd (optimize sp api s opt method_arg)) = callback_calls opt"
proof -
  let ?opt0 = "opt\<lparr>iteration_count := 0\<rparr>"
  have cm: "chosen_method ?opt0 method_arg = chosen_method opt method_arg"
    by (simp add: chosen_method_def split: option.splits)
  have run: "\<And>initial_params.
      callback_calls (snd (run_method sp api s ?opt0 initial_params (chosen_method opt method_arg)))
        = callback_calls opt"
  proof -
    fix initial_params
    let ?sol = "least_squares sp initial_params (chosen_method opt method_arg)
                   (get_parameter_bounds (camera_params opt))
                   (max_iterations opt) (tolerance opt) (tolerance opt)"
    obtain r opt1 where rs: "run_solver (objective_function api s) ?sol ?opt0 = (r, opt1)"
      by (cases "run_solver (objective_function api s) ?sol ?opt0")
    have "callback_calls opt1 = callback_calls ?opt0"
      using run_solver_objective_silent [of api s ?sol ?opt0] by (simp add: rs)
    then show "callback_calls (snd (run_method sp api s ?opt0 initial_params (chosen_method opt method_arg)))
        = callback_calls opt"
      using assms rs by (simp add: run_method_def Let_def split: sum.splits)
  qed
  show ?thesis
  proof (cases "get_parameter_vector (camera_params opt)")
    case (Inl e)
    then show ?thesis by (simp add: optimize_def Let_def)
  next
    case (Inr initial_params)
    obtain r opt1 where rm: "run_method sp api s ?opt0 initial_params (chosen_method opt method_arg) = (r, opt1)"
      by (cases "run_method sp api s ?opt0 initial_params (chosen_method opt method_arg)")
    have c1: "callback_calls opt1 = callback_calls opt"
      using run [of initial_params] by (simp add: rm)
    show ?thesis
      using Inr rm c1 cm
      by (simp add: optimize_def Let_def apply_result_callback split: sum.splits prod.splits)
  qed
qed


lemma example_cost_function:
  assumes "camera_params opt = example_params" "locator_pairs opt = example_pairs"
    "image_width opt = 1920" "image_height opt = 1080" "progress_callback opt"
  shows "cost_function example_maya example_scene0 opt [0, 0, 0, 0, 0, 0, 35, 0, 0]
           = (Inr (3264625 / 36),
              opt\<lparr>camera_params := example_params, locator_pairs := example_pairs,
                  iteration_count := iteration_count opt + 1,
                  callback_calls := callback_calls opt @ [(iteration_count opt + 1, 3264625 / 36)]\<rparr>)"
  using assms(5)
  by (simp add: cost_function_def example_objective [OF assms(1-4)] example_cost Let_def)

lemma example_callbacks_minimize:
  "callback_calls (snd (optimize (example_scipy True) example_maya example_scene0
                          (set_progress_callback example_optimizer) (Some ''L-BFGS-B'')))
     = [(1, 3264625 / 36)]"
proof -
  let ?opt = "set_progress_callback example_optimizer"
  let ?opt0 = "?opt\<lparr>iteration_count := 0\<rparr>"
  have fields: "camera_params ?opt0 = example_params" "locator_pairs ?opt0 = example_pairs"
    "image_width ?opt0 = 1920" "image_height ?opt0 = 1080" "progress_callback ?opt0"
    by (simp_all add: set_progress_callback_def example_optimizer_fields)
  have fields': "camera_params ?opt = example_params" "locator_pairs ?opt = example_pairs"
    by (simp_all add: set_progress_callback_def example_optimizer_fields)
  note cf = example_cost_function [OF fields]
  have run: "callback_calls (snd (run_method (example_scipy True) example_maya example_scene0 ?opt0
                 [0, 0, 0, 0, 0, 0, 35, 0, 0] ''L-BFGS-B'')) = [(1, 3264625 / 36)]"
    by (simp add: run_method_def example_scipy_def one_call_def cf Let_def split: prod.splits)
       (simp add: set_progress_callback_def example_optimizer_fields)
  obtain r opt1 where rm: "run_method (example_scipy True) example_maya example_scene0 ?opt0
                 [0, 0, 0, 0, 0, 0, 35, 0, 0] ''L-BFGS-B'' = (r, opt1)"
    by (cases "run_method (example_scipy True) example_maya example_scene0 ?opt0
                 [0, 0, 0, 0, 0, 0, 35, 0, 0] ''L-BFGS-B''")
  have c1: "callback_calls opt1 = [(1, 3264625 / 36)]" using run by (simp add: rm)
  show ?thesis
    using example_preconditions [OF fields'] rm c1
    by (simp add: optimize_def Let_def chosen_method_def apply_result_callback
        split: sum.splits prod.splits)
qed

text \<open>
  Claim C2, on the example. A callback is set and the solver calls the objective once.
  With the methods \<open>lm\<close> (also as the default), \<open>trf\<close> and \<open>dogbox\<close> the run completes
  with one evaluation and the callback has not been called; with \<open>L-BFGS-B\<close> it has been
  called once, with the evaluation count 1 and the cost.
\<close>

theorem least_squares_skips_progress_callback:
  "progress_callback (set_progress_callback example_optimizer)
   \<and> fst (optimize (example_scipy True) example_maya example_scene0
            (set_progress_callback example_optimizer) (Some ''lm'')) = Inr (True, 3264625 / 36, 1)
   \<and> callback_calls (snd (optimize (example_scipy True) example_maya example_scene0
                            (set_progress_callback example_optimizer) (Some ''lm''))) = []
   \<and> callback_calls (snd (optimize (example_scipy True) example_maya example_scene0
                            (set_progress_callback example_optimizer) (Some ''trf''))) = []
   \<and> callback_calls (snd (optimize (example_scipy True) example_maya example_scene0
                            (set_progress_callback example_optimizer) (Some ''dogbox''))) = []
   \<and> callback_calls (snd (optimize (example_scipy True) example_maya example_scene0
                            (set_progress_callback example_optimizer) None)) = []
   \<and> callback_calls (snd (optimize (example_scipy True) example_maya example_scene0
                            (set_progress_callback example_optimizer) (Some ''L-BFGS-B'')))
       = [(1, 3264625 / 36)]"
proof -
  let ?opt = "set_progress_callback example_optimizer"
  have cb: "progress_callback ?opt" by (simp add: set_progress_callback_def)
  have none: "callback_calls ?opt = []"
    by (simp add: set_progress_callback_def example_optimizer_fields)
  have fields: "camera_params ?opt = example_params" "locator_pairs ?opt = example_pairs"
    "image_width ?opt = 1920" "image_height ?opt = 1080"
    by (simp_all add: set_progress_callback_def example_optimizer_fields)
  have res: "fst (optimize (example_scipy True) example_maya example_scene0 ?opt (Some ''lm''))
       = Inr (True, 3264625 / 36, 1)"
    by (simp add: example_optimize_lm [OF fields])
  have m1: "chosen_method ?opt (Some ''lm'') \<in> set [''lm'', ''trf'', ''dogbox'']"
    and m2: "chosen_method ?opt (Some ''trf'') \<in> set [''lm'', ''trf'', ''dogbox'']"
    and m3: "chosen_method ?opt (Some ''dogbox'') \<in> set [''lm'', ''trf'', ''dogbox'']"
    and m4: "chosen_method ?opt None \<in> set [''lm'', ''trf'', ''dogbox'']"
    by (simp_all add: chosen_method_def set_progress_callback_def example_optimizer_fields)
  show ?thesis
    using cb res none example_callbacks_minimize
      least_squares_never_calls_back [OF m1, of "example_scipy True" example_maya example_scene0]
      least_squares_never_calls_back [OF m2, of "example_scipy True" example_maya example_scene0]
      least_squares_never_calls_back [OF m3, of "example_scipy True" example_maya example_scene0]
      least_squares_never_calls_back [OF m4, of "example_scipy True" example_maya example_scene0]
    by simp
qed

section \<open>Locking a parameter\<close>

lemmas configure_eval =
  configure_optimization_parameters_def lock_parameter_def alloc_def set_constraints_def
  get_parameter_value_def set_parameter_value_def clamp_value_def
  example_params_def new_CameraParameters_def initial_constraints_def initial_heap_def
  new_ParameterConstraints_def default_constraints_def Let_def
  get_parameter_vector_def is_parameter_locked_def param_names_def get_parameter_bounds_def
  get_unlocked_parameter_names_def get_constraints_def

text \<open>
  Claim C8, on the parameter set that \<open>configure_optimization_parameters\<close> of
  example\_usage.py leaves: the focal length is locked, and \<open>translate_x\<close>, \<open>translate_y\<close>
  and \<open>translate_z\<close> share one constraints object. \<open>translate_x\<close> is unlocked, and
  locking it takes three entries, not one, from the parameter vector and from each bound
  array.
\<close>

theorem lock_shared_constraints:
  "fst (configure_optimization_parameters example_params) = None
   \<and> \<not> is_parameter_locked (snd (configure_optimization_parameters example_params)) ''translate_x''
   \<and> get_parameter_vector (snd (configure_optimization_parameters example_params))
       = Inr [0, 0, 0, 0, 0, 0, 0, 0]
   \<and> get_parameter_vector
        (lock_parameter (snd (configure_optimization_parameters example_params)) ''translate_x'' True)
       = Inr [0, 0, 0, 0, 0]
   \<and> get_unlocked_parameter_names
        (lock_parameter (snd (configure_optimization_parameters example_params)) ''translate_x'' True)
       = [''rotate_x'', ''rotate_y'', ''rotate_z'', ''film_offset_x'', ''film_offset_y'']
   \<and> get_parameter_bounds (snd (configure_optimization_parameters example_params))
       = ([Finite (- 50), Finite (- 50), Finite (- 50), Finite (- 180), Finite (- 180), Finite (- 180),
           Finite (- 10), Finite (- 10)],
          [Finite 50, Finite 50, Finite 50, Finite 180, Finite 180, Finite 180, Finite 10, Finite 10])
   \<and> get_parameter_bounds
        (lock_parameter (snd (configure_optimization_parameters example_params)) ''translate_x'' True)
       = ([Finite (- 180), Finite (- 180), Finite (- 180), Finite (- 10), Finite (- 10)],
          [Finite 180, Finite 180, Finite 180, Finite 10, Finite 10])"
  by (simp add: configure_eval)

text \<open>
  What the claim says does hold where the parameter's constraints object is not shared
  with another of the nine names: then locking takes exactly one entry, at one position,
  from the vector and from both bound arrays.
\<close>

lemma filter_remove_one:
  assumes "distinct ys" "n \<in> set ys"
  shows "\<exists>i < length ys. ys ! i = n \<and> filter (\<lambda>m. m \<noteq> n) ys = take i ys @ drop (Suc i) ys"
proof -
  from assms(2) obtain i where i: "i < length ys" "ys ! i = n"
    by (auto simp: in_set_conv_nth)
  have split: "ys = take i ys @ n # drop (Suc i) ys"
    by (metis id_take_nth_drop i)
  have "distinct (take i ys @ n # drop (Suc i) ys)"
    using assms(1) split by simp
  then have notin: "n \<notin> set (take i ys)" "n \<notin> set (drop (Suc i) ys)"
    by auto
  have f1: "filter (\<lambda>m. m \<noteq> n) (take i ys) = take i ys"
    and f2: "filter (\<lambda>m. m \<noteq> n) (drop (Suc i) ys) = drop (Suc i) ys"
    using notin by (auto simp: filter_id_conv)
  have "filter (\<lambda>m. m \<noteq> n) (take i ys @ n # drop (Suc i) ys) = take i ys @ drop (Suc i) ys"
    by (simp add: f1 f2)
  then have "filter (\<lambda>m. m \<noteq> n) ys = take i ys @ drop (Suc i) ys"
    using split by simp
  with i show ?thesis by blast
qed

lemma get_parameter_value_known:
  "n \<in> set param_names \<Longrightarrow> get_parameter_value cp n = Inr (projr (get_parameter_value cp n))"
  by (cases n rule: param_name_cases) (simp_all add: get_parameter_value_def)

lemma collect_values_map:
  "set ns \<subseteq> set param_names \<Longrightarrow>
   collect_values cp ns =
     Inr (map (\<lambda>m. projr (get_parameter_value cp m)) (filter (\<lambda>m. \<not> is_parameter_locked cp m) ns))"
proof (induction ns)
  case Nil
  show ?case by simp
next
  case (Cons n ns)
  then have n: "n \<in> set param_names" and ns: "set ns \<subseteq> set param_names" by simp_all
  obtain v where v: "get_parameter_value cp n = Inr v" "projr (get_parameter_value cp n) = v"
    using get_parameter_value_known [OF n, of cp] by simp
  show ?case using Cons.IH [OF ns] v by simp
qed

lemma get_parameter_vector_map:
  "get_parameter_vector cp =
     Inr (map (\<lambda>m. projr (get_parameter_value cp m)) (get_unlocked_parameter_names cp))"
  by (simp add: get_parameter_vector_def get_unlocked_parameter_names_def collect_values_map)

lemma lock_parameter_existing:
  "constraints cp n = Some r \<Longrightarrow>
   lock_parameter cp n locked = cp\<lparr>heap := (heap cp)(r := (heap cp r)\<lparr>is_locked := locked\<rparr>)\<rparr>"
  by (simp add: lock_parameter_def Let_def)

lemma lock_unshared_removes_one:
  assumes n: "n \<in> set param_names"
    and unlocked: "\<not> is_parameter_locked cp n"
    and r: "constraints cp n = Some r"
    and unshared: "\<forall>m \<in> set param_names. m \<noteq> n \<longrightarrow> constraints cp m \<noteq> Some r"
  shows "\<exists>i < length (get_unlocked_parameter_names cp).
           get_unlocked_parameter_names cp ! i = n
         \<and> get_unlocked_parameter_names (lock_parameter cp n True)
             = take i (get_unlocked_parameter_names cp) @ drop (Suc i) (get_unlocked_parameter_names cp)
         \<and> projr (get_parameter_vector (lock_parameter cp n True))
             = take i (projr (get_parameter_vector cp)) @ drop (Suc i) (projr (get_parameter_vector cp))
         \<and> fst (get_parameter_bounds (lock_parameter cp n True))
             = take i (fst (get_parameter_bounds cp)) @ drop (Suc i) (fst (get_parameter_bounds cp))
         \<and> snd (get_parameter_bounds (lock_parameter cp n True))
             = take i (snd (get_parameter_bounds cp)) @ drop (Suc i) (snd (get_parameter_bounds cp))"
proof -
  let ?cp' = "lock_parameter cp n True"
  let ?U = "get_unlocked_parameter_names cp"
  have cp': "?cp' = cp\<lparr>heap := (heap cp)(r := (heap cp r)\<lparr>is_locked := True\<rparr>)\<rparr>"
    by (rule lock_parameter_existing [OF r])
  have locked: "\<And>m. m \<in> set param_names \<Longrightarrow>
      is_parameter_locked ?cp' m = (m = n \<or> is_parameter_locked cp m)"
  proof -
    fix m assume m: "m \<in> set param_names"
    show "is_parameter_locked ?cp' m = (m = n \<or> is_parameter_locked cp m)"
    proof (cases "m = n")
      case True
      then show ?thesis using r by (simp add: cp' is_parameter_locked_def)
    next
      case False
      then have "constraints cp m \<noteq> Some r" using unshared m by blast
      then show ?thesis using False
        by (cases "constraints cp m") (simp_all add: cp' is_parameter_locked_def)
    qed
  qed
  have val: "\<And>m. get_parameter_value ?cp' m = get_parameter_value cp m"
    by (simp add: cp' get_parameter_value_def)
  have lo: "\<And>m. min_value (get_constraints ?cp' m) = min_value (get_constraints cp m)"
    and hi: "\<And>m. max_value (get_constraints ?cp' m) = max_value (get_constraints cp m)"
    by (simp_all add: cp' get_constraints_def split: option.splits)
  have U': "get_unlocked_parameter_names ?cp' = filter (\<lambda>m. m \<noteq> n) ?U"
  proof -
    have "filter (\<lambda>m. \<not> is_parameter_locked ?cp' m) param_names
          = filter (\<lambda>m. m \<noteq> n \<and> \<not> is_parameter_locked cp m) param_names"
      by (rule filter_cong) (auto simp: locked)
    then show ?thesis
      by (simp add: get_unlocked_parameter_names_def conj_commute)
  qed
  have dist: "distinct ?U" and inU: "n \<in> set ?U"
    using n unlocked by (simp_all add: get_unlocked_parameter_names_def param_names_distinct)
  from filter_remove_one [OF dist inU] obtain i where
    i: "i < length ?U" "?U ! i = n" and f: "filter (\<lambda>m. m \<noteq> n) ?U = take i ?U @ drop (Suc i) ?U"
    by blast
  have names: "get_unlocked_parameter_names ?cp' = take i ?U @ drop (Suc i) ?U"
    using U' f by simp
  have vec: "projr (get_parameter_vector ?cp')
      = take i (projr (get_parameter_vector cp)) @ drop (Suc i) (projr (get_parameter_vector cp))"
    by (simp add: get_parameter_vector_map names val take_map drop_map)
  have lower: "fst (get_parameter_bounds ?cp')
      = take i (fst (get_parameter_bounds cp)) @ drop (Suc i) (fst (get_parameter_bounds cp))"
    by (simp add: get_parameter_bounds_def Let_def names lo take_map drop_map)
  have upper: "snd (get_parameter_bounds ?cp')
      = take i (snd (get_parameter_bounds cp)) @ drop (Suc i) (snd (get_parameter_bounds cp))"
    by (simp add: get_parameter_bounds_def Let_def names hi take_map drop_map)
  show ?thesis using i names vec lower upper by blast
qed

end
